theory Spec2Isabelle
  imports Main "HOL-Library.Word"
begin

unbundle bit_operations_syntax

section \<open>Python values, exceptions and names\<close>

text \<open>
  The development follows \<^verbatim>\<open>pg8000/translate.py\<close>, \<^verbatim>\<open>pg8000/startup.py\<close>,
  \<^verbatim>\<open>pg8000/constants.py\<close> and \<^verbatim>\<open>pg8000/tzutc.py\<close> as they run under Python 3
  (\<^verbatim>\<open>six.PY2\<close> is false, so the \<^verbatim>\<open>else\<close> branches of the version tests are the
  ones embedded). A byte string is a list of 8-bit words, a text string a list of
  Unicode code points, a Python integer an \<open>int\<close>.
\<close>

type_synonym byte = "8 word"
type_synonym bytes = "byte list"
type_synonym unicode = "nat list"

text \<open>
  Every exception the embedded code can raise is a value; a function that can raise
  returns \<open>error + 'a\<close> with the exception on the left.
\<close>

datatype error =
    NameError string
  | AttributeError string
  | TypeError
  | KeyError
  | IndexError
  | StructError
  | OverflowError
  | ValueError
  | LookupError string
  | UnicodeError
  | ProgrammingError
  | ArrayContentEmptyError
  | ArrayContentNotSupportedError

text \<open>
  The values that parameters, list elements and names can hold. \<open>PyObject n\<close> is a
  module, class or function object, known by its name \<open>n\<close>.
\<close>

datatype pyval =
    PyNone
  | PyBool bool
  | PyInt int
  | PyStr unicode
  | PyBytes bytes
  | PyList "pyval list"
  | PyObject string

definition text_of :: "string \<Rightarrow> unicode" where
  "text_of s = map of_char s"

definition bytes_of :: "string \<Rightarrow> bytes" where
  "bytes_of s = map of_char s"

subsection \<open>Name resolution\<close>

text \<open>
  A bare name in a method body of \<^verbatim>\<open>translate.py\<close> that is not a local variable is
  looked up in the module's globals and then in the builtins; a miss raises
  \<^verbatim>\<open>NameError\<close>. The module's globals are its imports (lines 3--18) and the class
  it defines (line 21).
\<close>

definition module_globals :: "string list" where
  "module_globals =
     [''six'', ''json'', ''uuid'', ''struct'', ''decimal'', ''datetime'', ''calendar'',
      ''ipaddress'', ''defaultdict'', ''interval'', ''types'', ''constants'', ''errors'',
      ''tzutc'', ''PostgresTranslate'']"

definition builtin_names :: "string list" where
  "builtin_names =
     [''int'', ''str'', ''bytes'', ''bytearray'', ''list'', ''tuple'', ''dict'', ''type'',
      ''len'', ''map'', ''zip'', ''iter'', ''reversed'', ''range'', ''ord'', ''eval'',
      ''print'', ''divmod'', ''isinstance'', ''issubclass'', ''getattr'', ''setattr'',
      ''object'', ''True'', ''False'', ''None'', ''KeyError'', ''AttributeError'',
      ''OverflowError'']"

definition load_global :: "string \<Rightarrow> error + pyval" where
  "load_global name =
     (if name \<in> set module_globals \<or> name \<in> set builtin_names
      then Inr (PyObject name) else Inl (NameError name))"

subsection \<open>Indexing and slicing of byte strings\<close>

text \<open>\<^verbatim>\<open>data[i]\<close>: a negative index counts from the end; out of range raises.\<close>

definition getitem :: "'a list \<Rightarrow> int \<Rightarrow> error + 'a" where
  "getitem xs i =
     (let n = int (length xs); j = (if i < 0 then i + n else i)
      in if 0 \<le> j \<and> j < n then Inr (xs ! nat j) else Inl IndexError)"

text \<open>
  \<^verbatim>\<open>data[a:b]\<close>: each bound is moved into \<open>0..len\<close> (a negative one after adding
  the length); the slice is empty when the bounds cross. Slicing never raises.
\<close>

definition slice_bound :: "nat \<Rightarrow> int \<Rightarrow> nat" where
  "slice_bound n i =
     (if i < 0 then nat (max (i + int n) 0) else min (nat i) n)"

definition py_slice :: "'a list \<Rightarrow> int \<Rightarrow> int \<Rightarrow> 'a list" where
  "py_slice xs a b =
     (let lo = slice_bound (length xs) a; hi = slice_bound (length xs) b
      in take (hi - lo) (drop lo xs))"

section \<open>The binary pack table\<close>

text \<open>
  \<^verbatim>\<open>_create_pack_funcs\<close> (lines 1198--1211) wraps \<^verbatim>\<open>struct.Struct('!' + fmt)\<close>:
  network byte order, no padding. The integer field codes are embedded: \<^verbatim>\<open>b\<close>,
  \<^verbatim>\<open>h\<close>, \<^verbatim>\<open>i\<close> and \<^verbatim>\<open>q\<close> are signed integers of 1, 2, 4 and 8 bytes.
  The codes \<^verbatim>\<open>c\<close>, \<^verbatim>\<open>f\<close> and \<^verbatim>\<open>d\<close> are not.
\<close>

datatype fcode = Fb | Fh | Fi | Fq

fun fcode_size :: "fcode \<Rightarrow> nat" where
  "fcode_size Fb = 1"
| "fcode_size Fh = 2"
| "fcode_size Fi = 4"
| "fcode_size Fq = 8"

definition calcsize :: "fcode list \<Rightarrow> nat" where
  "calcsize fmt = sum_list (map fcode_size fmt)"

text \<open>Big-endian two's complement: the most significant byte first.\<close>

definition be_bytes :: "nat \<Rightarrow> int \<Rightarrow> bytes" where
  "be_bytes n v = map (\<lambda>k. word_of_int (v div 256 ^ k)) (rev [0..<n])"

definition be_uint :: "bytes \<Rightarrow> int" where
  "be_uint bs = foldl (\<lambda>a b. a * 256 + uint b) 0 bs"

definition be_sint :: "bytes \<Rightarrow> int" where
  "be_sint bs =
     (let u = be_uint bs; w = 8 * length bs
      in if 2 ^ (w - 1) \<le> u then u - 2 ^ w else u)"

text \<open>A value outside the field's signed range raises \<^verbatim>\<open>struct.error\<close>.\<close>

definition pack_field :: "fcode \<Rightarrow> int \<Rightarrow> error + bytes" where
  "pack_field c v =
     (let n = fcode_size c
      in if - (2 ^ (8 * n - 1)) \<le> v \<and> v < 2 ^ (8 * n - 1)
         then Inr (be_bytes n v) else Inl StructError)"

text \<open>\<^verbatim>\<open>struc.pack(*args)\<close>: one argument per field, else \<^verbatim>\<open>struct.error\<close>.\<close>

fun struct_pack :: "fcode list \<Rightarrow> int list \<Rightarrow> error + bytes" where
  "struct_pack [] [] = Inr []"
| "struct_pack (c # cs) (v # vs) =
     (case pack_field c v of
        Inl e \<Rightarrow> Inl e
      | Inr b \<Rightarrow> (case struct_pack cs vs of Inl e \<Rightarrow> Inl e | Inr bs \<Rightarrow> Inr (b @ bs)))"
| "struct_pack _ _ = Inl StructError"

fun unpack_fields :: "fcode list \<Rightarrow> bytes \<Rightarrow> int list" where
  "unpack_fields [] bs = []"
| "unpack_fields (c # cs) bs =
     be_sint (take (fcode_size c) bs) # unpack_fields cs (drop (fcode_size c) bs)"

text \<open>
  \<^verbatim>\<open>struc.unpack_from(data, offset)\<close> for a format of \<open>width\<close> bytes, up to the
  bytes that it unpacks. The offset is converted to a C \<^verbatim>\<open>ssize_t\<close> first (64
  bits on the platforms of CPython that are in use): an offset outside its range
  raises \<^verbatim>\<open>OverflowError\<close>. A negative offset counts from the end of the
  buffer; the format's size must be available from the offset on, else
  \<^verbatim>\<open>struct.error\<close>. Bytes after the format's size are not looked at.
\<close>

definition unpack_from_raw :: "nat \<Rightarrow> bytes \<Rightarrow> int \<Rightarrow> error + bytes" where
  "unpack_from_raw width data offset =
     (if offset < - (2 ^ 63) \<or> 2 ^ 63 \<le> offset then Inl OverflowError
      else (let n = int (length data);
                off = (if offset < 0 then offset + n else offset)
            in if off < 0 then Inl StructError
               else if n - off < int width then Inl StructError
               else Inr (take width (drop (nat off) data))))"

definition struct_unpack_from :: "fcode list \<Rightarrow> bytes \<Rightarrow> int \<Rightarrow> error + int list" where
  "struct_unpack_from fmt data offset =
     (case unpack_from_raw (calcsize fmt) data offset of
        Inl e \<Rightarrow> Inl e
      | Inr bs \<Rightarrow> Inr (unpack_fields fmt bs))"

text \<open>\<^verbatim>\<open>x_unpack(data, offset)[0]\<close>: the first field of the tuple.\<close>

definition first_field :: "error + int list \<Rightarrow> error + int" where
  "first_field r =
     (case r of Inl e \<Rightarrow> Inl e | Inr [] \<Rightarrow> Inl IndexError | Inr (v # _) \<Rightarrow> Inr v)"

text \<open>The pairs that \<^verbatim>\<open>__init__\<close> creates for the formats \<^verbatim>\<open>h\<close>, \<^verbatim>\<open>i\<close>, \<^verbatim>\<open>q\<close>.\<close>

definition h_pack :: "int \<Rightarrow> error + bytes" where
  "h_pack v = struct_pack [Fh] [v]"

definition i_pack :: "int \<Rightarrow> error + bytes" where
  "i_pack v = struct_pack [Fi] [v]"

definition q_pack :: "int \<Rightarrow> error + bytes" where
  "q_pack v = struct_pack [Fq] [v]"



definition q_unpack :: "bytes \<Rightarrow> int \<Rightarrow> error + int list" where
  "q_unpack data offset = struct_unpack_from [Fq] data offset"

section \<open>Integer codecs\<close>




section \<open>Dates and times\<close>

text \<open>
  The standard library's calendar: the proleptic Gregorian ordinal of a date, with
  day 1 the first of January of year 1.
\<close>

definition is_leap :: "int \<Rightarrow> bool" where
  "is_leap year = (year mod 4 = 0 \<and> (year mod 100 \<noteq> 0 \<or> year mod 400 = 0))"

definition days_before_year :: "int \<Rightarrow> int" where
  "days_before_year year =
     (let y = year - 1 in y * 365 + y div 4 - y div 100 + y div 400)"

definition days_before_month :: "int \<Rightarrow> nat \<Rightarrow> int" where
  "days_before_month year month =
     [0, 0, 31, 59, 90, 120, 151, 181, 212, 243, 273, 304, 334] ! month
       + (if 2 < month \<and> is_leap year then 1 else 0)"

definition ymd2ord :: "int \<Rightarrow> nat \<Rightarrow> int \<Rightarrow> int" where
  "ymd2ord year month day = days_before_year year + days_before_month year month + day"

text \<open>
  The translator's own time zone object \<^verbatim>\<open>self.utc\<close> (an instance of
  \<^verbatim>\<open>tzutc.UTC\<close>, offset zero), or any other time zone object, given by the offset
  in microseconds east of UTC that its \<^verbatim>\<open>utcoffset\<close> reports for the datetime.
\<close>

datatype tzinfo = TzUTC | TzOther int

text \<open>
  A \<^verbatim>\<open>datetime.datetime\<close> is its calendar fields and an optional time zone. The
  fields are held as one number, \<open>ticks\<close>: the microseconds from
  0001-01-01T00:00:00 to the value the fields spell. The fields of a datetime range
  over years 1 to 9999, so \<open>0 \<le> ticks \<le> ticks datetime_max\<close>.
\<close>

record datetime =
  ticks :: int
  tzinfo :: "tzinfo option"

definition day_us :: int where
  "day_us = 86400000000"

definition mk_datetime :: "int \<Rightarrow> nat \<Rightarrow> int \<Rightarrow> int \<Rightarrow> int \<Rightarrow> int \<Rightarrow> int \<Rightarrow> datetime" where
  "mk_datetime y m d hh mm ss us =
     \<lparr>ticks = (ymd2ord y m d - 1) * day_us + ((hh * 60 + mm) * 60 + ss) * 1000000 + us,
      tzinfo = None\<rparr>"

definition datetime_max :: datetime where
  "datetime_max = mk_datetime 9999 12 31 23 59 59 999999"

definition datetime_min :: datetime where
  "datetime_min = mk_datetime 1 1 1 0 0 0 0"

text \<open>\<^verbatim>\<open>dt.replace(tzinfo=tz)\<close> keeps the fields.\<close>

definition replace_tzinfo :: "datetime \<Rightarrow> tzinfo option \<Rightarrow> datetime" where
  "replace_tzinfo dt tz = dt\<lparr>tzinfo := tz\<rparr>"

text \<open>
  \<^verbatim>\<open>a == b\<close> on datetimes: a naive and an aware value are never equal; two naive
  values compare their fields, two aware values their instants.
\<close>

definition utcoffset :: "tzinfo \<Rightarrow> int" where
  "utcoffset tz = (case tz of TzUTC \<Rightarrow> 0 | TzOther off \<Rightarrow> off)"

definition datetime_eq :: "datetime \<Rightarrow> datetime \<Rightarrow> bool" where
  "datetime_eq a b =
     (case (tzinfo a, tzinfo b) of
        (None, None) \<Rightarrow> ticks a = ticks b
      | (Some x, Some y) \<Rightarrow> ticks a - utcoffset x = ticks b - utcoffset y
      | _ \<Rightarrow> False)"

text \<open>
  \<^verbatim>\<open>datetime.timedelta(microseconds=m)\<close>, held as its total of microseconds; more
  than 999999999 days either way raises \<^verbatim>\<open>OverflowError\<close>.
\<close>

definition timedelta_microseconds :: "int \<Rightarrow> error + int" where
  "timedelta_microseconds m =
     (if \<bar>m div day_us\<bar> \<le> 999999999 then Inr m else Inl OverflowError)"

text \<open>
  \<^verbatim>\<open>dt + delta\<close>: the sum must spell a date of the years 1 to 9999, else
  \<^verbatim>\<open>OverflowError\<close>. The time zone is kept.
\<close>

definition datetime_add :: "datetime \<Rightarrow> int \<Rightarrow> error + datetime" where
  "datetime_add dt delta =
     (let t = ticks dt + delta
      in if 0 \<le> t \<and> t \<le> ticks datetime_max then Inr (dt\<lparr>ticks := t\<rparr>)
         else Inl OverflowError)"

text \<open>
  \<^verbatim>\<open>calendar.timegm(dt.timetuple())\<close>: the whole seconds from 1970-01-01 to the
  fields of \<open>dt\<close>, whatever its time zone; \<^verbatim>\<open>dt.microsecond\<close> is the rest.
\<close>

definition timegm :: "datetime \<Rightarrow> int" where
  "timegm dt = ticks dt div 1000000 - (ymd2ord 1970 1 1 - 1) * 86400"

definition microsecond :: "datetime \<Rightarrow> int" where
  "microsecond dt = ticks dt mod 1000000"

text \<open>\<^verbatim>\<open>__init__\<close>, lines 55--64.\<close>

definition epoch :: datetime where
  "epoch = mk_datetime 2000 1 1 0 0 0 0"

definition epoch_tz :: datetime where
  "epoch_tz = replace_tzinfo epoch (Some TzUTC)"

definition epoch_seconds :: int where
  "epoch_seconds = timegm epoch"

definition infinity_microseconds :: int where
  "infinity_microseconds = 2 ^ 63 - 1"

definition minus_infinity_microseconds :: int where
  "minus_infinity_microseconds = -1 * infinity_microseconds - 1"

definition datetime_max_tz :: datetime where
  "datetime_max_tz = replace_tzinfo datetime_max (Some TzUTC)"

definition datetime_min_tz :: datetime where
  "datetime_min_tz = replace_tzinfo datetime_min (Some TzUTC)"

text \<open>
  \<^verbatim>\<open>timestamp_recv_integer\<close>, lines 277--286. The \<^verbatim>\<open>try\<close> covers the making of
  the timedelta and the addition; only \<^verbatim>\<open>OverflowError\<close> is caught.
\<close>

definition timestamp_recv_integer :: "bytes \<Rightarrow> int \<Rightarrow> int \<Rightarrow> error + datetime" where
  "timestamp_recv_integer data offset len =
     (case first_field (q_unpack data offset) of
        Inl e \<Rightarrow> Inl e
      | Inr micros \<Rightarrow>
          (case (case timedelta_microseconds micros of
                   Inl e \<Rightarrow> Inl e
                 | Inr delta \<Rightarrow> datetime_add epoch delta) of
             Inr dt \<Rightarrow> Inr dt
           | Inl OverflowError \<Rightarrow>
               if micros = infinity_microseconds then Inr datetime_max
               else if micros = minus_infinity_microseconds then Inr datetime_min
               else Inl OverflowError
           | Inl e \<Rightarrow> Inl e))"

text \<open>
  \<^verbatim>\<open>timestamp_send_integer\<close>, lines 320--327. In the last branch the source
  multiplies the whole seconds by the float \<^verbatim>\<open>1e6\<close> and truncates with
  \<^verbatim>\<open>int\<close>; for the seconds of any datetime the product is a multiple of 64 below
  \<open>2 ^ 59\<close>, which a double holds exactly, so the integer product is what it
  computes.
\<close>

definition timestamp_send_integer :: "datetime \<Rightarrow> error + bytes" where
  "timestamp_send_integer timestamp =
     (let micros =
        (if datetime_eq timestamp datetime_max then infinity_microseconds
         else if datetime_eq timestamp datetime_min then minus_infinity_microseconds
         else (timegm timestamp - epoch_seconds) * 1000000 + microsecond timestamp)
      in q_pack micros)"

section \<open>Boolean codec\<close>

text \<open>
  \<^verbatim>\<open>__init__\<close>, lines 66--69: the byte strings held as \<^verbatim>\<open>self.true\<close>,
  \<^verbatim>\<open>self.false\<close> and \<^verbatim>\<open>self.null_byte\<close>.
\<close>

definition self_true :: bytes where
  "self_true = [1]"

definition self_false :: bytes where
  "self_false = [0]"

definition null_byte :: bytes where
  "null_byte = [0]"

text \<open>
  \<^verbatim>\<open>bool_send\<close>, line 1058: \<^verbatim>\<open>return self.true if value else false\<close>. The first
  alternative is the attribute \<^verbatim>\<open>self.true\<close>; the second is the bare name
  \<^verbatim>\<open>false\<close>, resolved through the module's globals when \<^verbatim>\<open>value\<close> is falsy.
\<close>

definition bool_send :: "bool \<Rightarrow> error + pyval" where
  "bool_send val = (if val then Inr (PyBytes self_true) else load_global ''false'')"

text \<open>
  \<^verbatim>\<open>bool_recv\<close>, line 829 (the Python 3 variant): \<^verbatim>\<open>return data[offset] == 1\<close>.
  Indexing a byte string yields the byte as an integer; \<^verbatim>\<open>length\<close> is not used.
\<close>

definition bool_recv :: "bytes \<Rightarrow> int \<Rightarrow> int \<Rightarrow> error + bool" where
  "bool_recv data offset len =
     (case getitem data offset of Inl e \<Rightarrow> Inl e | Inr b \<Rightarrow> Inr (uint b = 1))"

section \<open>The translator and its registries\<close>

text \<open>The field constants of \<^verbatim>\<open>constants.py\<close>, lines 38--39.\<close>

definition FC_TEXT :: int where
  "FC_TEXT = 0"

definition FC_BINARY :: int where
  "FC_BINARY = 1"

text \<open>
  The registries hold bound methods. A method in a registry is named by a
  constructor: \<open>D_f\<close> is the decoder \<^verbatim>\<open>self.f\<close>, \<open>E_f\<close> the encoder \<^verbatim>\<open>self.f\<close>.
\<close>

datatype decoder =
    D_bool_recv | D_bytea_recv | D_text_recv | D_int8_recv | D_int2_recv
  | D_vector_in | D_int4_recv | D_int_in | D_json_in | D_float4_recv
  | D_float8_recv | D_inet_in | D_array_recv | D_date_in | D_time_in
  | D_timestamp_recv_float | D_timestamptz_recv_float
  | D_timestamp_recv_integer | D_timestamptz_recv_integer
  | D_interval_recv_integer | D_interval_recv_float
  | D_num_array_in | D_numeric_in | D_uuid_recv

datatype encoder =
    E_null_send | E_bool_send | E_unknown_out | E_d_pack | E_inet_out
  | E_date_out | E_time_out
  | E_timestamp_send_integer | E_timestamptz_send_integer
  | E_timestamp_send_float | E_timestamptz_send_float
  | E_interval_send_integer | E_interval_send_float
  | E_numeric_out | E_uuid_send | E_bytea_send | E_text_out

text \<open>
  The keys of \<^verbatim>\<open>py_types\<close>: Python type objects, and the two integers 1114 and
  1184 under which the timestamp encoders are filed.
\<close>

datatype pykey =
    T_NoneType | T_bool | T_int | T_float
  | T_IPv4Address | T_IPv6Address | T_IPv4Network | T_IPv6Network
  | T_date | T_time | K_int int | T_timedelta | T_Interval | T_Decimal | T_UUID
  | T_bytes | T_str

text \<open>
  The state of a \<^verbatim>\<open>PostgresTranslate\<close> instance that its methods read or write.
  \<open>client_encoding = None\<close> is Python's \<^verbatim>\<open>None\<close>. A pack or unpack function
  stored in \<^verbatim>\<open>pack_shorts\<close> or \<^verbatim>\<open>unpack_shorts\<close> is given by its format.
\<close>

record translator =
  client_encoding :: "string option"
  max_pack_shorts_count :: int
  pack_shorts :: "int \<rightharpoonup> fcode list"
  unpack_shorts :: "int \<rightharpoonup> fcode list"
  pg_types :: "int \<rightharpoonup> int \<times> decoder"
  py_types :: "pykey \<rightharpoonup> int \<times> int \<times> encoder"
  encodings :: "string \<rightharpoonup> string option"

text \<open>
  \<^verbatim>\<open>_create_pack_shorts\<close>, lines 1213--1221: both dictionaries are emptied, then
  \<^verbatim>\<open>for index in range(1, self.max_pack_shorts_count)\<close> files the pair for the
  format of \<^verbatim>\<open>index\<close> letters \<^verbatim>\<open>h\<close>. \<^verbatim>\<open>range(1, n)\<close> is \<open>1, \<dots>, n - 1\<close>.
\<close>

definition create_pack_shorts_step :: "translator \<Rightarrow> int \<Rightarrow> translator" where
  "create_pack_shorts_step t index =
     (let fmt = replicate (nat index) Fh
      in t\<lparr>pack_shorts := (pack_shorts t)(index \<mapsto> fmt),
           unpack_shorts := (unpack_shorts t)(index \<mapsto> fmt)\<rparr>)"

definition create_pack_shorts :: "translator \<Rightarrow> translator" where
  "create_pack_shorts t =
     foldl create_pack_shorts_step
       (t\<lparr>pack_shorts := Map.empty, unpack_shorts := Map.empty\<rparr>)
       [1..max_pack_shorts_count t - 1]"

text \<open>
  Encoding a row of \<open>n\<close> shorts through the table: \<^verbatim>\<open>self.pack_shorts[n](*values)\<close>.
\<close>

definition pack_shorts_call :: "translator \<Rightarrow> int \<Rightarrow> int list \<Rightarrow> error + bytes" where
  "pack_shorts_call t n vals =
     (case pack_shorts t n of None \<Rightarrow> Inl KeyError | Some fmt \<Rightarrow> struct_pack fmt vals)"

text \<open>\<^verbatim>\<open>_establish_postgres_types\<close>, lines 83--124: the dictionary literal.\<close>

definition postgres_types :: "(int \<times> int \<times> decoder) list" where
  "postgres_types =
     [(16, FC_BINARY, D_bool_recv),
      (17, FC_BINARY, D_bytea_recv),
      (19, FC_BINARY, D_text_recv),
      (20, FC_BINARY, D_int8_recv),
      (21, FC_BINARY, D_int2_recv),
      (22, FC_TEXT, D_vector_in),
      (23, FC_BINARY, D_int4_recv),
      (25, FC_BINARY, D_text_recv),
      (26, FC_TEXT, D_int_in),
      (28, FC_TEXT, D_int_in),
      (114, FC_TEXT, D_json_in),
      (700, FC_BINARY, D_float4_recv),
      (701, FC_BINARY, D_float8_recv),
      (705, FC_BINARY, D_text_recv),
      (829, FC_TEXT, D_text_recv),
      (869, FC_TEXT, D_inet_in),
      (1000, FC_BINARY, D_array_recv),
      (1003, FC_BINARY, D_array_recv),
      (1005, FC_BINARY, D_array_recv),
      (1007, FC_BINARY, D_array_recv),
      (1009, FC_BINARY, D_array_recv),
      (1014, FC_BINARY, D_array_recv),
      (1015, FC_BINARY, D_array_recv),
      (1016, FC_BINARY, D_array_recv),
      (1021, FC_BINARY, D_array_recv),
      (1022, FC_BINARY, D_array_recv),
      (1042, FC_BINARY, D_text_recv),
      (1043, FC_BINARY, D_text_recv),
      (1082, FC_TEXT, D_date_in),
      (1083, FC_TEXT, D_time_in),
      (1114, FC_BINARY, D_timestamp_recv_float),
      (1184, FC_BINARY, D_timestamptz_recv_float),
      (1186, FC_BINARY, D_interval_recv_integer),
      (1231, FC_TEXT, D_num_array_in),
      (1263, FC_BINARY, D_array_recv),
      (1700, FC_TEXT, D_numeric_in),
      (2275, FC_BINARY, D_text_recv),
      (2950, FC_BINARY, D_uuid_recv),
      (3802, FC_TEXT, D_json_in)]"

text \<open>
  \<^verbatim>\<open>pg_types\<close> is a \<^verbatim>\<open>defaultdict\<close> whose factory is
  \<^verbatim>\<open>lambda: (self.FC_TEXT, self.text_recv)\<close>. Reading \<^verbatim>\<open>self.pg_types[oid]\<close>
  for a key that is absent calls the factory, stores its result under the key and
  returns it; the read therefore returns the descriptor and the new state.
\<close>

definition pg_types_default :: "int \<times> decoder" where
  "pg_types_default = (FC_TEXT, D_text_recv)"

definition pg_types_getitem :: "translator \<Rightarrow> int \<Rightarrow> (int \<times> decoder) \<times> translator" where
  "pg_types_getitem t oid =
     (case pg_types t oid of
        Some d \<Rightarrow> (d, t)
      | None \<Rightarrow> (pg_types_default, t\<lparr>pg_types := (pg_types t)(oid \<mapsto> pg_types_default)\<rparr>))"

text \<open>
  \<^verbatim>\<open>_establish_python_types\<close>, lines 126--153, with the two entries of the
  Python 3 branch.
\<close>

definition python_types :: "(pykey \<times> int \<times> int \<times> encoder) list" where
  "python_types =
     [(T_NoneType, -1, FC_BINARY, E_null_send),
      (T_bool, 16, FC_BINARY, E_bool_send),
      (T_int, 705, FC_TEXT, E_unknown_out),
      (T_float, 701, FC_BINARY, E_d_pack),
      (T_IPv4Address, 869, FC_TEXT, E_inet_out),
      (T_IPv6Address, 869, FC_TEXT, E_inet_out),
      (T_IPv4Network, 869, FC_TEXT, E_inet_out),
      (T_IPv6Network, 869, FC_TEXT, E_inet_out),
      (T_date, 1082, FC_TEXT, E_date_out),
      (T_time, 1083, FC_TEXT, E_time_out),
      (K_int 1114, 1114, FC_BINARY, E_timestamp_send_integer),
      (K_int 1184, 1184, FC_BINARY, E_timestamptz_send_integer),
      (T_timedelta, 1186, FC_BINARY, E_interval_send_integer),
      (T_Interval, 1186, FC_BINARY, E_interval_send_integer),
      (T_Decimal, 1700, FC_TEXT, E_numeric_out),
      (T_UUID, 2950, FC_BINARY, E_uuid_send),
      (T_bytes, 17, FC_BINARY, E_bytea_send),
      (T_str, 705, FC_TEXT, E_text_out)]"

text \<open>
  \<^verbatim>\<open>_establish_encoding_hash\<close>, lines 168--214. A value \<open>None\<close> is Python's
  \<^verbatim>\<open>None\<close>: the docstring reads ``If the py side is None, then the encoding
  isn't supported''.
\<close>

definition encodings_table :: "(string \<times> string option) list" where
  "encodings_table =
     [(''mule_internal'', None),
      (''euc_tw'', None),
      (''euc_cn'', Some ''gb2312''),
      (''iso_8859_5'', Some ''is8859_5''),
      (''iso_8859_6'', Some ''is8859_6''),
      (''iso_8859_7'', Some ''is8859_7''),
      (''iso_8859_8'', Some ''is8859_8''),
      (''koi8'', Some ''koi8_r''),
      (''latin1'', Some ''iso8859-1''),
      (''latin2'', Some ''iso8859_2''),
      (''latin3'', Some ''iso8859_3''),
      (''latin4'', Some ''iso8859_4''),
      (''latin5'', Some ''iso8859_9''),
      (''latin6'', Some ''iso8859_10''),
      (''latin7'', Some ''iso8859_13''),
      (''latin8'', Some ''iso8859_14''),
      (''latin9'', Some ''iso8859_15''),
      (''sql_ascii'', Some ''ascii''),
      (''win866'', Some ''cp886''),
      (''win874'', Some ''cp874''),
      (''win1250'', Some ''cp1250''),
      (''win1251'', Some ''cp1251''),
      (''win1252'', Some ''cp1252''),
      (''win1253'', Some ''cp1253''),
      (''win1254'', Some ''cp1254''),
      (''win1255'', Some ''cp1255''),
      (''win1256'', Some ''cp1256''),
      (''win1257'', Some ''cp1257''),
      (''win1258'', Some ''cp1258''),
      (''unicode'', Some ''utf-8'')]"

text \<open>
  \<^verbatim>\<open>__init__\<close>, lines 27--76: \<^verbatim>\<open>PostgresTranslate(client_encoding,
  max_pack_shorts_count)\<close>, with the defaults \<^verbatim>\<open>"utf-8"\<close> and \<^verbatim>\<open>20\<close>.
\<close>

definition PostgresTranslate :: "string option \<Rightarrow> int \<Rightarrow> translator" where
  "PostgresTranslate enc count =
     (create_pack_shorts
        \<lparr>client_encoding = enc,
         max_pack_shorts_count = count,
         pack_shorts = Map.empty,
         unpack_shorts = Map.empty,
         pg_types = Map.empty,
         py_types = Map.empty,
         encodings = Map.empty\<rparr>)
     \<lparr>pg_types := map_of postgres_types,
      py_types := map_of python_types,
      encodings := map_of encodings_table\<rparr>"

definition default_translator :: translator where
  "default_translator = PostgresTranslate (Some ''utf-8'') 20"

text \<open>
  \<^verbatim>\<open>update_client_encoding\<close>, line 235:
  \<^verbatim>\<open>self.client_encoding = self.encodings.get(encoding, encoding)\<close>.
\<close>

definition update_client_encoding :: "translator \<Rightarrow> string \<Rightarrow> translator" where
  "update_client_encoding t encoding =
     t\<lparr>client_encoding :=
          (case encodings t encoding of Some v \<Rightarrow> v | None \<Rightarrow> Some encoding)\<rparr>"

text \<open>\<^verbatim>\<open>timestamps_are_integers\<close> and \<^verbatim>\<open>timestamps_are_floats\<close>, lines 238--257.\<close>

definition timestamps_are_integers :: "translator \<Rightarrow> translator" where
  "timestamps_are_integers t =
     t\<lparr>pg_types := (pg_types t)
          (1114 \<mapsto> (FC_BINARY, D_timestamp_recv_integer),
           1184 \<mapsto> (FC_BINARY, D_timestamptz_recv_integer),
           1186 \<mapsto> (FC_BINARY, D_interval_recv_integer)),
        py_types := (py_types t)
          (K_int 1114 \<mapsto> (1114, FC_BINARY, E_timestamp_send_integer),
           K_int 1184 \<mapsto> (1184, FC_BINARY, E_timestamptz_send_integer),
           T_Interval \<mapsto> (1186, FC_BINARY, E_interval_send_integer),
           T_timedelta \<mapsto> (1186, FC_BINARY, E_interval_send_integer))\<rparr>"

definition timestamps_are_floats :: "translator \<Rightarrow> translator" where
  "timestamps_are_floats t =
     t\<lparr>pg_types := (pg_types t)
          (1114 \<mapsto> (FC_BINARY, D_timestamp_recv_float),
           1184 \<mapsto> (FC_BINARY, D_timestamptz_recv_float),
           1186 \<mapsto> (FC_BINARY, D_interval_recv_float)),
        py_types := (py_types t)
          (K_int 1114 \<mapsto> (1114, FC_BINARY, E_timestamp_send_float),
           K_int 1184 \<mapsto> (1184, FC_BINARY, E_timestamptz_send_float),
           T_Interval \<mapsto> (1186, FC_BINARY, E_interval_send_float),
           T_timedelta \<mapsto> (1186, FC_BINARY, E_interval_send_float))\<rparr>"

text \<open>
  The states a translator can be in: as constructed, and after any of the calls
  that write to it.
\<close>

inductive reachable :: "translator \<Rightarrow> bool" where
  constructed: "reachable (PostgresTranslate enc count)"
| integers: "reachable t \<Longrightarrow> reachable (timestamps_are_integers t)"
| floats: "reachable t \<Longrightarrow> reachable (timestamps_are_floats t)"
| encoding: "reachable t \<Longrightarrow> reachable (update_client_encoding t name)"
| lookup: "reachable t \<Longrightarrow> reachable (snd (pg_types_getitem t oid))"

section \<open>Text codecs\<close>

text \<open>
  A codec is its encoder and its decoder. Which codecs exist, and what they compute,
  belongs to the Python runtime: the functions below take its registry \<open>reg\<close>
  as a parameter, from codec name to codec.
\<close>

type_synonym codec = "(unicode \<Rightarrow> error + bytes) \<times> (bytes \<Rightarrow> error + unicode)"

text \<open>
  \<^verbatim>\<open>s.encode(enc)\<close>, and \<^verbatim>\<open>str(b, enc)\<close> or \<^verbatim>\<open>b.decode(enc)\<close>: an encoding
  that is not a string is a \<^verbatim>\<open>TypeError\<close>, raised before the data is looked
  at; a name the registry does not know is a \<^verbatim>\<open>LookupError\<close>. Decoding an empty
  byte string gives the empty string without looking the codec up; encoding has
  no such shortcut.
\<close>

definition str_encode :: "(string \<Rightarrow> codec option) \<Rightarrow> string option \<Rightarrow> unicode \<Rightarrow> error + bytes" where
  "str_encode reg enc s =
     (case enc of
        None \<Rightarrow> Inl TypeError
      | Some name \<Rightarrow>
          (case reg name of None \<Rightarrow> Inl (LookupError name) | Some c \<Rightarrow> fst c s))"

definition bytes_decode :: "(string \<Rightarrow> codec option) \<Rightarrow> string option \<Rightarrow> bytes \<Rightarrow> error + unicode" where
  "bytes_decode reg enc b =
     (case enc of
        None \<Rightarrow> Inl TypeError
      | Some name \<Rightarrow>
          if b = [] then Inr []
          else (case reg name of None \<Rightarrow> Inl (LookupError name) | Some c \<Rightarrow> snd c b))"

text \<open>
  \<^verbatim>\<open>text_recv\<close>, lines 824--826 (the Python 3 variant):
  \<^verbatim>\<open>str(data[offset: offset + length], self.client_encoding)\<close>.
\<close>

definition text_recv ::
  "(string \<Rightarrow> codec option) \<Rightarrow> translator \<Rightarrow> bytes \<Rightarrow> int \<Rightarrow> int \<Rightarrow> error + unicode" where
  "text_recv reg t data offset len =
     bytes_decode reg (client_encoding t) (py_slice data offset (offset + len))"

text \<open>\<^verbatim>\<open>text_out\<close>, line 649: \<^verbatim>\<open>data.encode(self.client_encoding)\<close>.\<close>

definition text_out :: "(string \<Rightarrow> codec option) \<Rightarrow> translator \<Rightarrow> unicode \<Rightarrow> error + bytes" where
  "text_out reg t data = str_encode reg (client_encoding t) data"

text \<open>
  Three codecs of the runtime, for evaluating the functions above on concrete
  input: ASCII, Latin-1 (which Python also knows as \<^verbatim>\<open>iso8859-1\<close>) and the
  encoder of UTF-8.
\<close>

definition ascii_codec :: codec where
  "ascii_codec =
     (\<lambda>s. if \<forall>c \<in> set s. c < 128 then Inr (map of_nat s) else Inl UnicodeError,
      \<lambda>b. if \<forall>x \<in> set b. unat x < 128 then Inr (map unat b) else Inl UnicodeError)"

definition latin1_codec :: codec where
  "latin1_codec =
     (\<lambda>s. if \<forall>c \<in> set s. c < 256 then Inr (map of_nat s) else Inl UnicodeError,
      \<lambda>b. Inr (map unat b))"

definition sample_codecs :: "string \<Rightarrow> codec option" where
  "sample_codecs name =
     (if name = ''ascii'' then Some ascii_codec
      else if name = ''iso8859-1'' \<or> name = ''latin-1'' then Some latin1_codec
      else None)"

text \<open>
  \<^verbatim>\<open>s.encode('utf8')\<close>: one to four bytes for each code point; a surrogate
  (\<open>0xD800\<close> to \<open>0xDFFF\<close>) cannot be encoded. A Python string holds code points
  below \<open>0x110000\<close> only.
\<close>

definition utf8_char :: "nat \<Rightarrow> error + bytes" where
  "utf8_char c =
     (if c < 0x80 then Inr [of_nat c]
      else if c < 0x800 then Inr [of_nat (0xC0 + c div 64), of_nat (0x80 + c mod 64)]
      else if 0xD800 \<le> c \<and> c \<le> 0xDFFF then Inl UnicodeError
      else if c < 0x10000 then
        Inr [of_nat (0xE0 + c div 4096), of_nat (0x80 + c div 64 mod 64),
             of_nat (0x80 + c mod 64)]
      else if c < 0x110000 then
        Inr [of_nat (0xF0 + c div 262144), of_nat (0x80 + c div 4096 mod 64),
             of_nat (0x80 + c div 64 mod 64), of_nat (0x80 + c mod 64)]
      else Inl UnicodeError)"

fun utf8_encode :: "unicode \<Rightarrow> error + bytes" where
  "utf8_encode [] = Inr []"
| "utf8_encode (c # cs) =
     (case utf8_char c of
        Inl e \<Rightarrow> Inl e
      | Inr b \<Rightarrow> (case utf8_encode cs of Inl e \<Rightarrow> Inl e | Inr bs \<Rightarrow> Inr (b @ bs)))"

section \<open>Timestamps with time zone\<close>

text \<open>
  \<^verbatim>\<open>timestamptz_recv_integer\<close>, lines 388--397: as \<^verbatim>\<open>timestamp_recv_integer\<close>,
  from \<^verbatim>\<open>self.epoch_tz\<close> and with the bounds that carry \<^verbatim>\<open>self.utc\<close>.
\<close>

definition timestamptz_recv_integer :: "bytes \<Rightarrow> int \<Rightarrow> int \<Rightarrow> error + datetime" where
  "timestamptz_recv_integer data offset len =
     (case first_field (q_unpack data offset) of
        Inl e \<Rightarrow> Inl e
      | Inr micros \<Rightarrow>
          (case (case timedelta_microseconds micros of
                   Inl e \<Rightarrow> Inl e
                 | Inr delta \<Rightarrow> datetime_add epoch_tz delta) of
             Inr dt \<Rightarrow> Inr dt
           | Inl OverflowError \<Rightarrow>
               if micros = infinity_microseconds then Inr datetime_max_tz
               else if micros = minus_infinity_microseconds then Inr datetime_min_tz
               else Inl OverflowError
           | Inl e \<Rightarrow> Inl e))"

text \<open>
  \<^verbatim>\<open>timestamp.astimezone(self.utc)\<close>. A datetime that already carries
  \<^verbatim>\<open>self.utc\<close> is returned as it is. Otherwise the offset of its zone is
  subtracted (an offset of a day or more is a \<^verbatim>\<open>ValueError\<close>, a difference
  outside the years 1 to 9999 an \<^verbatim>\<open>OverflowError\<close>) and the result carries
  \<^verbatim>\<open>self.utc\<close>. For a naive datetime the platform decides: \<open>local = None\<close> is a
  Python that refuses (\<^verbatim>\<open>ValueError\<close>, before 3.6), \<open>local = Some off\<close> one that
  reads the fields in the system's zone, \<open>off\<close> microseconds east of UTC.
\<close>

definition astimezone_utc :: "int option \<Rightarrow> datetime \<Rightarrow> error + datetime" where
  "astimezone_utc local dt =
     (case tzinfo dt of
        Some TzUTC \<Rightarrow> Inr dt
      | other \<Rightarrow>
          (case (case other of
                   None \<Rightarrow> (case local of None \<Rightarrow> Inl ValueError | Some off \<Rightarrow> Inr off)
                 | Some tz \<Rightarrow> Inr (utcoffset tz)) of
             Inl e \<Rightarrow> Inl e
           | Inr off \<Rightarrow>
               if day_us \<le> \<bar>off\<bar> then Inl ValueError
               else (case datetime_add dt (- off) of
                       Inl e \<Rightarrow> Inl e
                     | Inr u \<Rightarrow> Inr (replace_tzinfo u (Some TzUTC)))))"

text \<open>
  \<^verbatim>\<open>timestamptz_send_integer\<close>, line 354:
  \<^verbatim>\<open>self.timestamp_send_integer(timestamp.astimezone(self.utc).replace(tzinfo=None))\<close>.
\<close>

definition timestamptz_send_integer :: "int option \<Rightarrow> datetime \<Rightarrow> error + bytes" where
  "timestamptz_send_integer local timestamp =
     (case astimezone_utc local timestamp of
        Inl e \<Rightarrow> Inl e
      | Inr u \<Rightarrow> timestamp_send_integer (replace_tzinfo u None))"

text \<open>
  The float representation. A double is held as its eight bytes on the wire;
  \<^verbatim>\<open>d_unpack(data, offset)[0]\<close> is those bytes. What the runtime
  computes from a double is a parameter: \<open>utcfromtimestamp x\<close> is
  \<^verbatim>\<open>datetime.datetime.utcfromtimestamp(self.epoch_seconds + x)\<close>, a naive datetime
  or an exception; \<open>dpack secs us\<close> is
  \<^verbatim>\<open>self.d_pack(secs + us / 1e6 - self.epoch_seconds)\<close>.
\<close>

definition d_unpack :: "bytes \<Rightarrow> int \<Rightarrow> error + bytes" where
  "d_unpack data offset = unpack_from_raw 8 data offset"

text \<open>\<^verbatim>\<open>timestamp_recv_float\<close>, line 307.\<close>

definition timestamp_recv_float ::
  "(bytes \<Rightarrow> error + datetime) \<Rightarrow> bytes \<Rightarrow> int \<Rightarrow> int \<Rightarrow> error + datetime" where
  "timestamp_recv_float utcfromtimestamp data offset len =
     (case d_unpack data offset of Inl e \<Rightarrow> Inl e | Inr x \<Rightarrow> utcfromtimestamp x)"

text \<open>
  \<^verbatim>\<open>dt.replace(tzinfo=v)\<close> for a value \<open>v\<close>: \<^verbatim>\<open>None\<close> makes the datetime naive;
  a value that is not a time zone object is a \<^verbatim>\<open>TypeError\<close>, and no module,
  class or builtin function is one.
\<close>

definition replace_tzinfo_value :: "datetime \<Rightarrow> pyval \<Rightarrow> error + datetime" where
  "replace_tzinfo_value dt v =
     (case v of PyNone \<Rightarrow> Inr (replace_tzinfo dt None) | _ \<Rightarrow> Inl TypeError)"

text \<open>
  \<^verbatim>\<open>timestamptz_recv_float\<close>, line 416:
  \<^verbatim>\<open>self.timestamp_recv_float(data, offset, length).replace(tzinfo=utc)\<close>. The call
  is evaluated first, then the argument \<^verbatim>\<open>utc\<close>, a bare name.
\<close>

definition timestamptz_recv_float ::
  "(bytes \<Rightarrow> error + datetime) \<Rightarrow> bytes \<Rightarrow> int \<Rightarrow> int \<Rightarrow> error + datetime" where
  "timestamptz_recv_float utcfromtimestamp data offset len =
     (case timestamp_recv_float utcfromtimestamp data offset len of
        Inl e \<Rightarrow> Inl e
      | Inr dt \<Rightarrow>
          (case load_global ''utc'' of
             Inl e \<Rightarrow> Inl e
           | Inr v \<Rightarrow> replace_tzinfo_value dt v))"

text \<open>\<^verbatim>\<open>timestamp_send_float\<close>, line 340, and \<^verbatim>\<open>timestamptz_send_float\<close>, line 369.\<close>

definition timestamp_send_float :: "(int \<Rightarrow> int \<Rightarrow> bytes) \<Rightarrow> datetime \<Rightarrow> bytes" where
  "timestamp_send_float dpack timestamp = dpack (timegm timestamp) (microsecond timestamp)"

definition timestamptz_send_float ::
  "int option \<Rightarrow> (int \<Rightarrow> int \<Rightarrow> bytes) \<Rightarrow> datetime \<Rightarrow> error + bytes" where
  "timestamptz_send_float local dpack timestamp =
     (case astimezone_utc local timestamp of
        Inl e \<Rightarrow> Inl e
      | Inr u \<Rightarrow> Inr (timestamp_send_float dpack (replace_tzinfo u None)))"

section \<open>The remaining scalar decoders\<close>








text \<open>
  The decoders of the TEXT format hand a slice of the data, or its decoded text,
  to a function of the runtime. These functions are parameters, each returning a
  value or an exception:
  \<^item> \<open>int_of_bytes b\<close> is \<^verbatim>\<open>int(b)\<close> for a byte string, \<open>int_of_text s\<close> is
    \<^verbatim>\<open>int(s)\<close> for a text string;
  \<^item> \<open>decimal s\<close> is \<^verbatim>\<open>decimal.Decimal(s)\<close>, \<open>loads s\<close> is \<^verbatim>\<open>json.loads(s)\<close>;
  \<^item> \<open>ip_network s\<close> is \<^verbatim>\<open>ipaddress.ip_network(s, False)\<close>, \<open>ip_address s\<close>
    is \<^verbatim>\<open>ipaddress.ip_address(s)\<close>, \<open>eval_text s\<close> is \<^verbatim>\<open>eval(s)\<close>;
  \<^item> \<open>date y m d\<close> is \<^verbatim>\<open>datetime.date(y, m, d)\<close>, with \<open>date_max\<close> and
    \<open>date_min\<close> for \<^verbatim>\<open>datetime.date.max\<close> and \<^verbatim>\<open>datetime.date.min\<close>;
  \<^item> \<open>time_of hour minute s\<close> is lines 909--912 from the decoded text \<open>s\<close> on:
    \<^verbatim>\<open>sec = decimal.Decimal(s)\<close> and
    \<^verbatim>\<open>datetime.time(hour, minute, int(sec), int((sec - int(sec)) * 1000000))\<close>.
\<close>










section \<open>Array inference\<close>

text \<open>\<^verbatim>\<open>constants.py\<close>, lines 118--130.\<close>

definition MIN_INT2 :: int where
  "MIN_INT2 = - (2 ^ 15)"

definition MAX_INT2 :: int where
  "MAX_INT2 = 2 ^ 15"

definition MIN_INT4 :: int where
  "MIN_INT4 = - (2 ^ 31)"

definition MAX_INT4 :: int where
  "MAX_INT4 = 2 ^ 31"

definition MIN_INT8 :: int where
  "MIN_INT8 = - (2 ^ 63)"

definition MAX_INT8 :: int where
  "MAX_INT8 = 2 ^ 63"

definition PG_ARRAY_TYPES :: "(int \<times> int) list" where
  "PG_ARRAY_TYPES = [(16, 1000), (25, 1009), (701, 1022), (1700, 1231)]"

text \<open>
  The attributes of a translator: the methods that the class defines, and what
  \<^verbatim>\<open>__init__\<close> and the functions it calls assign on the instance, among them a
  pack and an unpack function for each format of \<^verbatim>\<open>binary_formats\<close> and for each
  run of \<^verbatim>\<open>h\<close>. Reading any other attribute of \<^verbatim>\<open>self\<close> raises
  \<^verbatim>\<open>AttributeError\<close>. (The attributes that every object has, all of the form
  \<^verbatim>\<open>__name__\<close>, are not listed.)
\<close>

definition class_attributes :: "string list" where
  "class_attributes =
     [''__init__'', ''_establish_postgres_types'', ''_establish_python_types'',
      ''_establish_encoding_hash'', ''update_client_encoding'',
      ''timestamps_are_integers'', ''timestamps_are_floats'',
      ''timestamp_recv_integer'', ''timestamp_recv_float'',
      ''timestamp_send_integer'', ''timestamp_send_float'',
      ''timestamptz_send_integer'', ''timestamptz_send_float'',
      ''timestamptz_recv_integer'', ''timestamptz_recv_float'',
      ''interval_send_integer'', ''interval_send_float'',
      ''interval_recv_integer'', ''interval_recv_float'',
      ''int8_recv'', ''int2_recv'', ''int4_recv'', ''float4_recv'', ''float8_recv'',
      ''int_in'', ''text_out'', ''time_out'', ''date_out'', ''unknown_out'',
      ''num_array_in'', ''array_recv'', ''bytea_send'',
      ''_create_bytea_recv_func'', ''_create_text_recv_func'',
      ''time_in'', ''date_in'', ''numeric_in'', ''numeric_out'', ''vector_in'',
      ''uuid_send'', ''uuid_recv'', ''inet_out'', ''inet_in'', ''bool_send'',
      ''null_send'', ''get_translator_for_complex_type'', ''get_translators'',
      ''inspect_datetime'', ''inspect_array'', ''array_flatten'',
      ''_create_pack_funcs'', ''_create_pack_shorts'',
      ''_create_pack_shorts_for_index'']"

definition binary_formats :: "string list" where
  "binary_formats =
     [''i'', ''h'', ''q'', ''d'', ''f'', ''iii'', ''ii'', ''qii'', ''dii'', ''ihihih'',
      ''ci'', ''bh'', ''cccc'']"

definition pack_func_names :: "string \<Rightarrow> string list" where
  "pack_func_names fmt = [fmt @ ''_pack'', fmt @ ''_unpack'']"

definition instance_attributes :: "translator \<Rightarrow> string list" where
  "instance_attributes t =
     [''client_encoding'', ''FC_TEXT'', ''FC_BINARY'']
     @ concat (map pack_func_names binary_formats)
     @ [''max_pack_shorts_count'', ''pack_shorts'', ''unpack_shorts'']
     @ concat (map (\<lambda>index. pack_func_names (replicate (nat index) CHR ''h''))
         [1..max_pack_shorts_count t - 1])
     @ [''bytea_recv'', ''text_recv'', ''bool_recv'', ''json_in'', ''utc'', ''epoch'',
        ''epoch_tz'', ''epoch_seconds'', ''infinity_microseconds'',
        ''minus_infinity_microseconds'', ''datetime_max_tz'', ''datetime_min_tz'',
        ''true'', ''false'', ''null'', ''null_byte'', ''translation_table'', ''glbls'',
        ''pg_types'', ''py_types'', ''encodings'']"

definition getattr_self :: "translator \<Rightarrow> string \<Rightarrow> error + pyval" where
  "getattr_self t name =
     (if name \<in> set class_attributes \<or> name \<in> set (instance_attributes t)
      then Inr (PyObject name) else Inl (AttributeError name))"

text \<open>
  \<^verbatim>\<open>array_flatten\<close>, lines 1190--1196: the leaves of a nested list, depth first.
\<close>

fun flatten_item :: "pyval \<Rightarrow> pyval list" where
  "flatten_item (PyList vs) = concat (map flatten_item vs)"
| "flatten_item v = [v]"

definition array_flatten :: "pyval list \<Rightarrow> pyval list" where
  "array_flatten arr = concat (map flatten_item arr)"

text \<open>
  The integer value of an element in a comparison: \<^verbatim>\<open>bool\<close> is a subclass of
  \<^verbatim>\<open>int\<close>. Comparing an integer constant with any other kind of element
  raises \<^verbatim>\<open>TypeError\<close>.
\<close>

fun int_value :: "pyval \<Rightarrow> int option" where
  "int_value (PyInt i) = Some i"
| "int_value (PyBool b) = Some (if b then 1 else 0)"
| "int_value _ = None"

text \<open>
  The loop of \<^verbatim>\<open>inspect_array\<close>, lines 1106--1118, over the flattened list, from
  the flags \<^verbatim>\<open>int2_ok, int4_ok, int8_ok = True, True, True\<close>.
\<close>

fun probe_widths :: "pyval list \<Rightarrow> bool \<times> bool \<times> bool \<Rightarrow> error + bool \<times> bool \<times> bool" where
  "probe_widths [] oks = Inr oks"
| "probe_widths (v # vs) (int2_ok, int4_ok, int8_ok) =
     (if v = PyNone then probe_widths vs (int2_ok, int4_ok, int8_ok)
      else (case int_value v of
              None \<Rightarrow> Inl TypeError
            | Some i \<Rightarrow>
                if MIN_INT2 < i \<and> i < MAX_INT2
                then probe_widths vs (int2_ok, int4_ok, int8_ok)
                else if MIN_INT4 < i \<and> i < MAX_INT4
                then probe_widths vs (False, int4_ok, int8_ok)
                else if MIN_INT8 < i \<and> i < MAX_INT8
                then probe_widths vs (False, False, int8_ok)
                else probe_widths vs (False, False, False)))"

text \<open>
  The result of \<^verbatim>\<open>inspect_array\<close> is \<^verbatim>\<open>(array_oid, fc, send_array)\<close>. The
  function \<^verbatim>\<open>send_array\<close> is made, not called: it is given by the element OID
  and the element encoder that it holds.
\<close>

type_synonym array_translator = "int \<times> int \<times> (int \<times> pyval)"

text \<open>
  Lines 1132--1147, the elements that are not integers. The argument of
  \<^verbatim>\<open>self.get_translators((first_element,))\<close> is a bare name. The handlers of the
  \<^verbatim>\<open>try\<close> are tried in order: \<^verbatim>\<open>except KeyError\<close>, then
  \<^verbatim>\<open>except NotSupportedError\<close>, whose name is resolved when an exception
  reaches it.

  \<open>get_translators_object\<close> is \<^verbatim>\<open>self.get_translators((v,))[0]\<close> for a module,
  class or function \<open>v\<close>, the only values a global name holds: the type of \<open>v\<close>
  is no key of \<^verbatim>\<open>py_types\<close> (the \<^verbatim>\<open>KeyError\<close> is caught at line 1078) and is
  neither \<^verbatim>\<open>datetime\<close> nor \<^verbatim>\<open>list\<close> nor \<^verbatim>\<open>tuple\<close>, so line 1070 is reached:
  \<^verbatim>\<open>raise NotSupportedError(...)\<close>, with the name resolved first.
\<close>

definition get_translators_object :: "error + int \<times> int \<times> pyval" where
  "get_translators_object =
     (case load_global ''NotSupportedError'' of
        Inl e \<Rightarrow> Inl e
      | Inr c \<Rightarrow> Inl TypeError)"

definition array_handlers :: "error \<Rightarrow> error" where
  "array_handlers e =
     (if e = KeyError then ArrayContentNotSupportedError
      else (case load_global ''NotSupportedError'' of Inl e' \<Rightarrow> e' | Inr c \<Rightarrow> e))"

definition inspect_others :: "error + array_translator" where
  "inspect_others =
     (case (case load_global ''first_element'' of
              Inl e \<Rightarrow> Inl e
            | Inr v \<Rightarrow>
                (case get_translators_object of
                   Inl e \<Rightarrow> Inl e
                 | Inr (oid, fc, send_func) \<Rightarrow>
                     (let (oid', fc') = (if oid = 705 then (25, FC_BINARY) else (oid, fc))
                      in case map_of PG_ARRAY_TYPES oid' of
                           None \<Rightarrow> Inl KeyError
                         | Some array_oid \<Rightarrow> Inr (array_oid, fc', (oid', send_func))))) of
        Inl e \<Rightarrow> Inl (array_handlers e)
      | Inr r \<Rightarrow> Inr r)"

text \<open>
  Lines 1096--1188, on the flattened list. In the three integer branches the
  element encoder is a bare name: \<^verbatim>\<open>h_pack\<close>, \<^verbatim>\<open>i_pack\<close>, \<^verbatim>\<open>q_pack\<close>.
\<close>

definition inspect_flattened :: "pyval list \<Rightarrow> error + array_translator" where
  "inspect_flattened flattened =
     (case flattened of
        [] \<Rightarrow> Inl ArrayContentEmptyError
      | v0 # _ \<Rightarrow>
          if int_value v0 \<noteq> None then
            (case probe_widths flattened (True, True, True) of
               Inl e \<Rightarrow> Inl e
             | Inr (int2_ok, int4_ok, int8_ok) \<Rightarrow>
                 if int2_ok then
                   (case load_global ''h_pack'' of
                      Inl e \<Rightarrow> Inl e
                    | Inr f \<Rightarrow> Inr (1005, FC_BINARY, (21, f)))
                 else if int4_ok then
                   (case load_global ''i_pack'' of
                      Inl e \<Rightarrow> Inl e
                    | Inr f \<Rightarrow> Inr (1007, FC_BINARY, (23, f)))
                 else if int8_ok then
                   (case load_global ''q_pack'' of
                      Inl e \<Rightarrow> Inl e
                    | Inr f \<Rightarrow> Inr (1016, FC_BINARY, (20, f)))
                 else Inl ArrayContentNotSupportedError)
          else inspect_others)"

text \<open>
  \<^verbatim>\<open>inspect_array\<close>, line 1092: \<^verbatim>\<open>flattened = self.flatten_array(value)\<close>. The
  attribute is read before anything is called; the class names its flattening
  method \<^verbatim>\<open>array_flatten\<close>, and with that method's result the rest of the body
  would run.
\<close>

definition inspect_array :: "translator \<Rightarrow> pyval list \<Rightarrow> error + array_translator" where
  "inspect_array t val =
     (case getattr_self t ''flatten_array'' of
        Inl e \<Rightarrow> Inl e
      | Inr f \<Rightarrow> inspect_flattened (array_flatten val))"

section \<open>The startup message\<close>

text \<open>\<^verbatim>\<open>constants.py\<close>, lines 42--44 and 101--116.\<close>

definition VERSION_MAJOR :: int where
  "VERSION_MAJOR = 3"

definition VERSION_MINOR :: int where
  "VERSION_MINOR = 0"

definition DEFAULT_PROTOCOL_VERSION :: int where
  "DEFAULT_PROTOCOL_VERSION = push_bit 16 VERSION_MAJOR OR VERSION_MINOR"

text \<open>
  \<^verbatim>\<open>APPLICATION_NAME = "%s_%s_%s" % (HOSTNAME, PID, EXECUTABLE)\<close>. The three
  strings are read from the process when the module is loaded (or are the
  placeholders of the \<^verbatim>\<open>except\<close> branches); here they are parameters.
\<close>

definition APPLICATION_NAME :: "unicode \<Rightarrow> unicode \<Rightarrow> unicode \<Rightarrow> unicode" where
  "APPLICATION_NAME hostname pid executable =
     hostname @ text_of ''_'' @ pid @ text_of ''_'' @ executable"

text \<open>The truth value of a Python value, as \<^verbatim>\<open>if x:\<close> and \<^verbatim>\<open>x or y\<close> read it.\<close>

fun truthy :: "pyval \<Rightarrow> bool" where
  "truthy PyNone = False"
| "truthy (PyBool b) = b"
| "truthy (PyInt i) = (i \<noteq> 0)"
| "truthy (PyStr s) = (s \<noteq> [])"
| "truthy (PyBytes b) = (b \<noteq> [])"
| "truthy (PyList vs) = (vs \<noteq> [])"
| "truthy (PyObject n) = True"

text \<open>
  \<^verbatim>\<open>make_argument\<close>, lines 102--123. A text key or value is encoded as UTF-8;
  what is then not a byte string raises \<^verbatim>\<open>ProgrammingError\<close>. The key is
  treated before the value.
\<close>

definition encode_if_text :: "pyval \<Rightarrow> error + pyval" where
  "encode_if_text v =
     (case v of
        PyStr s \<Rightarrow> (case utf8_encode s of Inl e \<Rightarrow> Inl e | Inr b \<Rightarrow> Inr (PyBytes b))
      | _ \<Rightarrow> Inr v)"

definition expect_bytes :: "pyval \<Rightarrow> error + bytes" where
  "expect_bytes v = (case v of PyBytes b \<Rightarrow> Inr b | _ \<Rightarrow> Inl ProgrammingError)"

definition make_argument :: "pyval \<Rightarrow> pyval \<Rightarrow> error + bytes" where
  "make_argument key val =
     (case encode_if_text key of
        Inl e \<Rightarrow> Inl e
      | Inr key' \<Rightarrow>
          (case expect_bytes key' of
             Inl e \<Rightarrow> Inl e
           | Inr kb \<Rightarrow>
               (case encode_if_text val of
                  Inl e \<Rightarrow> Inl e
                | Inr val' \<Rightarrow>
                    (case expect_bytes val' of
                       Inl e \<Rightarrow> Inl e
                     | Inr vb \<Rightarrow> Inr (kb @ null_byte @ vb @ null_byte)))))"

text \<open>
  Lines 86--87: \<^verbatim>\<open>for key, value in kwargs.items()\<close>. The keyword arguments are
  held in the caller's order, which \<^verbatim>\<open>**kwargs\<close> keeps from Python 3.6 on; each
  name is a text string.
\<close>

fun make_arguments :: "(unicode \<times> pyval) list \<Rightarrow> error + bytes" where
  "make_arguments [] = Inr []"
| "make_arguments ((key, val) # kwargs) =
     (case make_argument (PyStr key) val of
        Inl e \<Rightarrow> Inl e
      | Inr a \<Rightarrow>
          (case make_arguments kwargs of Inl e \<Rightarrow> Inl e | Inr rest \<Rightarrow> Inr (a @ rest)))"

text \<open>
  \<^verbatim>\<open>StartupMessage._construct\<close>, lines 59--98, named \<open>construct'\<close> here. The
  translator that it makes from \<^verbatim>\<open>client_encoding\<close> gives it \<^verbatim>\<open>i_pack\<close> and
  \<^verbatim>\<open>null_byte\<close>, neither of which depends on the encoding. The class attributes
  that the method assigns are not read again after the call.
\<close>

definition construct' ::
  "pyval \<Rightarrow> pyval \<Rightarrow> int option \<Rightarrow> string option \<Rightarrow> pyval \<Rightarrow> (unicode \<times> pyval) list
     \<Rightarrow> error + bytes" where
  "construct' database user protocol_version encoding application_name kwargs =
     (let version = (case protocol_version of
                       None \<Rightarrow> DEFAULT_PROTOCOL_VERSION
                     | Some v \<Rightarrow> if v = 0 then DEFAULT_PROTOCOL_VERSION else v)
      in case i_pack version of
           Inl e \<Rightarrow> Inl e
         | Inr m0 \<Rightarrow>
       (case make_argument (PyStr (text_of ''user'')) user of
           Inl e \<Rightarrow> Inl e
         | Inr m1 \<Rightarrow>
       (case (if database \<noteq> PyNone
              then make_argument (PyStr (text_of ''database'')) database else Inr []) of
           Inl e \<Rightarrow> Inl e
         | Inr m2 \<Rightarrow>
       (case (if truthy application_name
              then make_argument (PyStr (text_of ''application_name'')) application_name
              else Inr []) of
           Inl e \<Rightarrow> Inl e
         | Inr m3 \<Rightarrow>
       (case make_arguments kwargs of
           Inl e \<Rightarrow> Inl e
         | Inr m4 \<Rightarrow>
       (let message = m0 @ m1 @ m2 @ m3 @ m4 @ null_byte
        in case i_pack (int (length message) + 4) of
             Inl e \<Rightarrow> Inl e
           | Inr l \<Rightarrow> Inr (l @ message)))))))"

text \<open>
  \<^verbatim>\<open>StartupMessage.construct\<close>, lines 42--56: an \<^verbatim>\<open>application_name\<close> of
  \<^verbatim>\<open>None\<close> is replaced by \<^verbatim>\<open>Constants.APPLICATION_NAME\<close>.
\<close>

definition construct ::
  "unicode \<Rightarrow> pyval \<Rightarrow> pyval \<Rightarrow> int option \<Rightarrow> string option \<Rightarrow> pyval \<Rightarrow> (unicode \<times> pyval) list
     \<Rightarrow> error + bytes" where
  "construct default_name database user protocol_version encoding application_name
     kwargs =
     construct' database user protocol_version encoding
       (if application_name = PyNone then PyStr default_name else application_name) kwargs"

section \<open>Properties\<close>

lemma load_global_false: "load_global ''false'' = Inl (NameError ''false'')"
  by (simp add: load_global_def module_globals_def builtin_names_def)

lemma bool_send_True: "bool_send True = Inr (PyBytes [1])"
  by (simp add: bool_send_def self_true_def)

lemma bool_recv_in_range:
  "0 \<le> offset \<Longrightarrow> offset < int (length data) \<Longrightarrow>
   bool_recv data offset len = Inr (data ! nat offset = 1)"
  by (simp add: bool_recv_def getitem_def Let_def word_uint_eq_iff)

subsection \<open>Timestamps as integer microseconds\<close>

lemma ticks_epoch: "ticks epoch = 63082281600000000"
  by code_simp

lemma ticks_datetime_max: "ticks datetime_max = 315537897599999999"
  by code_simp

lemma ticks_datetime_min: "ticks datetime_min = 0"
  by code_simp

lemma tzinfo_datetime_max: "tzinfo datetime_max = None"
  by (simp add: datetime_max_def mk_datetime_def)

lemma tzinfo_datetime_min: "tzinfo datetime_min = None"
  by (simp add: datetime_min_def mk_datetime_def)

lemma q_pack_infinity:
  "q_pack infinity_microseconds = Inr [0x7F, 0xFF, 0xFF, 0xFF, 0xFF, 0xFF, 0xFF, 0xFF]"
  by code_simp

lemma q_pack_minus_infinity:
  "q_pack minus_infinity_microseconds = Inr [0x80, 0, 0, 0, 0, 0, 0, 0]"
  by code_simp

lemma datetime_add_epoch_infinity:
  "datetime_add epoch infinity_microseconds = Inl OverflowError"
  by (simp add: datetime_add_def Let_def ticks_epoch ticks_datetime_max
      infinity_microseconds_def)

lemma datetime_add_epoch_minus_infinity:
  "datetime_add epoch minus_infinity_microseconds = Inl OverflowError"
  by (simp add: datetime_add_def Let_def ticks_epoch ticks_datetime_max
      minus_infinity_microseconds_def infinity_microseconds_def)

lemma timedelta_infinity:
  "timedelta_microseconds infinity_microseconds = Inr infinity_microseconds"
  by (simp add: timedelta_microseconds_def infinity_microseconds_def day_us_def)

lemma timedelta_minus_infinity:
  "timedelta_microseconds minus_infinity_microseconds = Inr minus_infinity_microseconds"
  by (simp add: timedelta_microseconds_def minus_infinity_microseconds_def
      infinity_microseconds_def day_us_def)

lemma timestamp_recv_integer_infinity:
  "first_field (q_unpack data offset) = Inr infinity_microseconds \<Longrightarrow>
   timestamp_recv_integer data offset len = Inr datetime_max"
  by (simp add: timestamp_recv_integer_def timedelta_infinity datetime_add_epoch_infinity)

lemma minus_infinity_neq_infinity: "minus_infinity_microseconds \<noteq> infinity_microseconds"
  by (simp add: minus_infinity_microseconds_def infinity_microseconds_def)

lemma timestamp_recv_integer_minus_infinity:
  "first_field (q_unpack data offset) = Inr minus_infinity_microseconds \<Longrightarrow>
   timestamp_recv_integer data offset len = Inr datetime_min"
  by (simp add: timestamp_recv_integer_def timedelta_minus_infinity
      datetime_add_epoch_minus_infinity minus_infinity_neq_infinity)

lemma timestamp_recv_integer_overflow:
  assumes "first_field (q_unpack data offset) = Inr m"
    and "m \<noteq> infinity_microseconds" and "m \<noteq> minus_infinity_microseconds"
    and "\<not> (0 \<le> ticks epoch + m \<and> ticks epoch + m \<le> ticks datetime_max)"
  shows "timestamp_recv_integer data offset len = Inl OverflowError"
proof (cases "timedelta_microseconds m")
  case (Inl e)
  then have "e = OverflowError"
    by (auto simp: timedelta_microseconds_def split: if_splits)
  with Inl assms show ?thesis
    by (simp add: timestamp_recv_integer_def)
next
  case (Inr d)
  then have "d = m"
    by (auto simp: timedelta_microseconds_def split: if_splits)
  moreover from assms(4) have "datetime_add epoch m = Inl OverflowError"
    by (simp add: datetime_add_def Let_def)
  ultimately show ?thesis
    using Inr assms by (simp add: timestamp_recv_integer_def)
qed

text \<open>
  Claim C1. Under the integer representation, encoding the maximum datetime gives
  the eight big-endian bytes of \<open>2 ^ 63 - 1\<close> and encoding the minimum datetime
  those of \<open>- (2 ^ 63)\<close>; a wire value that reads as one of these two integers
  decodes to the maximum, respectively minimum, datetime; any other wire integer
  whose sum with the epoch is not a datetime raises \<^verbatim>\<open>OverflowError\<close>.
\<close>

theorem timestamp_integer_sentinels:
  "timestamp_send_integer datetime_max
     = Inr [0x7F, 0xFF, 0xFF, 0xFF, 0xFF, 0xFF, 0xFF, 0xFF]
   \<and> timestamp_send_integer datetime_min = Inr [0x80, 0, 0, 0, 0, 0, 0, 0]
   \<and> be_sint [0x7F, 0xFF, 0xFF, 0xFF, 0xFF, 0xFF, 0xFF, 0xFF] = 2 ^ 63 - 1
   \<and> be_sint [0x80, 0, 0, 0, 0, 0, 0, 0] = - (2 ^ 63)
   \<and> (first_field (q_unpack data offset) = Inr (2 ^ 63 - 1) \<longrightarrow>
        timestamp_recv_integer data offset len = Inr datetime_max)
   \<and> (first_field (q_unpack data offset) = Inr (- (2 ^ 63)) \<longrightarrow>
        timestamp_recv_integer data offset len = Inr datetime_min)
   \<and> (first_field (q_unpack data offset) = Inr m
        \<and> m \<noteq> 2 ^ 63 - 1 \<and> m \<noteq> - (2 ^ 63)
        \<and> \<not> (0 \<le> ticks epoch + m \<and> ticks epoch + m \<le> ticks datetime_max) \<longrightarrow>
        timestamp_recv_integer data offset len = Inl OverflowError)"
proof (intro conjI impI)
  show "timestamp_send_integer datetime_max
          = Inr [0x7F, 0xFF, 0xFF, 0xFF, 0xFF, 0xFF, 0xFF, 0xFF]"
    by (simp add: timestamp_send_integer_def datetime_eq_def tzinfo_datetime_max
        q_pack_infinity)
  show "timestamp_send_integer datetime_min = Inr [0x80, 0, 0, 0, 0, 0, 0, 0]"
    by (simp add: timestamp_send_integer_def datetime_eq_def tzinfo_datetime_max
        tzinfo_datetime_min ticks_datetime_max ticks_datetime_min q_pack_minus_infinity)
  show "be_sint [0x7F, 0xFF, 0xFF, 0xFF, 0xFF, 0xFF, 0xFF, 0xFF] = 2 ^ 63 - 1"
    by (simp add: be_sint_def be_uint_def)
  show "be_sint [0x80, 0, 0, 0, 0, 0, 0, 0] = - (2 ^ 63)"
    by (simp add: be_sint_def be_uint_def)
  have inf: "infinity_microseconds = 2 ^ 63 - 1"
    by (simp add: infinity_microseconds_def)
  have minf: "minus_infinity_microseconds = - (2 ^ 63)"
    by (simp add: minus_infinity_microseconds_def infinity_microseconds_def)
  show "timestamp_recv_integer data offset len = Inr datetime_max"
    if "first_field (q_unpack data offset) = Inr (2 ^ 63 - 1)"
  proof -
    from that have "first_field (q_unpack data offset) = Inr infinity_microseconds"
      by (simp add: inf)
    then show ?thesis by (rule timestamp_recv_integer_infinity)
  qed
  show "timestamp_recv_integer data offset len = Inr datetime_min"
    if "first_field (q_unpack data offset) = Inr (- (2 ^ 63))"
  proof -
    from that have "first_field (q_unpack data offset) = Inr minus_infinity_microseconds"
      by (simp add: minf)
    then show ?thesis by (rule timestamp_recv_integer_minus_infinity)
  qed
  show "timestamp_recv_integer data offset len = Inl OverflowError"
    if "first_field (q_unpack data offset) = Inr m
        \<and> m \<noteq> 2 ^ 63 - 1 \<and> m \<noteq> - (2 ^ 63)
        \<and> \<not> (0 \<le> ticks epoch + m \<and> ticks epoch + m \<le> ticks datetime_max)"
  proof (rule timestamp_recv_integer_overflow)
    from that show "first_field (q_unpack data offset) = Inr m" by blast
    from that show "m \<noteq> infinity_microseconds" by (simp add: inf)
    from that show "m \<noteq> minus_infinity_microseconds" by (simp add: minf)
    from that show "\<not> (0 \<le> ticks epoch + m \<and> ticks epoch + m \<le> ticks datetime_max)"
      by blast
  qed
qed

theorem timestamp_integer_sentinels_witness:
  "timestamp_recv_integer [0x7F, 0xFF, 0xFF, 0xFF, 0xFF, 0xFF, 0xFF, 0xFF] 0 8
     = Inr datetime_max
   \<and> timestamp_recv_integer [0x80, 0, 0, 0, 0, 0, 0, 0] 0 8 = Inr datetime_min
   \<and> timestamp_recv_integer [0x80, 0, 0, 0, 0, 0, 0, 1] 0 8 = Inl OverflowError
   \<and> timestamp_recv_integer [0x7F, 0xFF, 0xFF, 0xFF, 0xFF, 0xFF, 0xFF, 0xFE] 0 8
     = Inl OverflowError"
proof -
  have a: "first_field (q_unpack [0x7F, 0xFF, 0xFF, 0xFF, 0xFF, 0xFF, 0xFF, 0xFF] 0)
             = Inr (2 ^ 63 - 1)"
    by code_simp
  have b: "first_field (q_unpack [0x80, 0, 0, 0, 0, 0, 0, 0] 0) = Inr (- (2 ^ 63))"
    by code_simp
  have c: "first_field (q_unpack [0x80, 0, 0, 0, 0, 0, 0, 1] 0) = Inr (- (2 ^ 63) + 1)"
    by code_simp
  have d: "first_field (q_unpack [0x7F, 0xFF, 0xFF, 0xFF, 0xFF, 0xFF, 0xFF, 0xFE] 0)
             = Inr (2 ^ 63 - 2)"
    by code_simp
  have c': "\<not> (0 \<le> ticks epoch + (- (2 ^ 63) + 1)
               \<and> ticks epoch + (- (2 ^ 63) + 1) \<le> ticks datetime_max)"
    by (simp add: ticks_epoch)
  have d': "\<not> (0 \<le> ticks epoch + (2 ^ 63 - 2)
               \<and> ticks epoch + (2 ^ 63 - 2) \<le> ticks datetime_max)"
    by (simp add: ticks_epoch ticks_datetime_max)
  have "timestamp_recv_integer [0x7F, 0xFF, 0xFF, 0xFF, 0xFF, 0xFF, 0xFF, 0xFF] 0 8
          = Inr datetime_max"
    using timestamp_integer_sentinels
      [of "[0x7F, 0xFF, 0xFF, 0xFF, 0xFF, 0xFF, 0xFF, 0xFF]" 0 8 0] a by blast
  moreover have "timestamp_recv_integer [0x80, 0, 0, 0, 0, 0, 0, 0] 0 8 = Inr datetime_min"
    using timestamp_integer_sentinels [of "[0x80, 0, 0, 0, 0, 0, 0, 0]" 0 8 0] b by blast
  moreover have "timestamp_recv_integer [0x80, 0, 0, 0, 0, 0, 0, 1] 0 8 = Inl OverflowError"
    using timestamp_integer_sentinels
      [of "[0x80, 0, 0, 0, 0, 0, 0, 1]" 0 8 "- (2 ^ 63) + 1"] c c' by simp
  moreover have
    "timestamp_recv_integer [0x7F, 0xFF, 0xFF, 0xFF, 0xFF, 0xFF, 0xFF, 0xFE] 0 8
       = Inl OverflowError"
    using timestamp_integer_sentinels
      [of "[0x7F, 0xFF, 0xFF, 0xFF, 0xFF, 0xFF, 0xFF, 0xFE]" 0 8 "2 ^ 63 - 2"] d d' by simp
  ultimately show ?thesis by blast
qed

subsection \<open>The registries\<close>

lemma postgres_types_distinct: "distinct (map fst postgres_types)"
  by (simp add: postgres_types_def)

lemma python_types_distinct: "distinct (map fst python_types)"
  by (simp add: python_types_def)

lemma encodings_table_distinct: "distinct (map fst encodings_table)"
  by (simp add: encodings_table_def)

lemma pg_types_PostgresTranslate [simp]:
  "pg_types (PostgresTranslate enc count) = map_of postgres_types"
  by (simp add: PostgresTranslate_def)

lemma py_types_PostgresTranslate [simp]:
  "py_types (PostgresTranslate enc count) = map_of python_types"
  by (simp add: PostgresTranslate_def)

lemma encodings_PostgresTranslate [simp]:
  "encodings (PostgresTranslate enc count) = map_of encodings_table"
  by (simp add: PostgresTranslate_def)

lemma client_encoding_foldl:
  "client_encoding (foldl create_pack_shorts_step t xs) = client_encoding t"
  by (induction xs arbitrary: t) (simp_all add: create_pack_shorts_step_def Let_def)

lemma client_encoding_PostgresTranslate [simp]:
  "client_encoding (PostgresTranslate enc count) = enc"
  by (simp add: PostgresTranslate_def create_pack_shorts_def client_encoding_foldl)

lemma reachable_encodings: "reachable t \<Longrightarrow> encodings t = map_of encodings_table"
  by (induction rule: reachable.induct)
    (simp_all add: timestamps_are_integers_def timestamps_are_floats_def
      update_client_encoding_def pg_types_getitem_def split: option.split)

lemma unlisted_oid:
  assumes "oid \<notin> fst ` set postgres_types"
  shows "oid \<noteq> 1114" and "oid \<noteq> 1184" and "oid \<noteq> 1186"
  using assms by (auto simp: postgres_types_def)

lemma reachable_unlisted:
  assumes "reachable t" and "oid \<notin> fst ` set postgres_types"
  shows "pg_types t oid = None \<or> pg_types t oid = Some pg_types_default"
  using assms
proof (induction rule: reachable.induct)
  case (constructed enc count)
  then show ?case by (simp add: map_of_eq_None_iff)
next
  case (integers t)
  then show ?case
    using unlisted_oid [of oid] by (simp add: timestamps_are_integers_def)
next
  case (floats t)
  then show ?case
    using unlisted_oid [of oid] by (simp add: timestamps_are_floats_def)
next
  case (encoding t name)
  then show ?case by (simp add: update_client_encoding_def)
next
  case (lookup t oid')
  then show ?case by (auto simp: pg_types_getitem_def split: option.split)
qed

text \<open>
  Claim C5. The inbound lookup \<^verbatim>\<open>self.pg_types[oid]\<close> returns a descriptor for
  every OID, in every state of the translator: it has no failing branch. For an
  OID that the table of the constructor does not list, the descriptor is the
  default, TEXT format with the generic text decoder; the lookup files it under
  the OID, so that reading again gives the same descriptor. For a listed OID the
  freshly constructed translator returns the table's entry.
\<close>

theorem pg_types_lookup_default:
  "reachable t \<Longrightarrow>
     (oid \<notin> fst ` set postgres_types \<longrightarrow>
        fst (pg_types_getitem t oid) = (FC_TEXT, D_text_recv))
   \<and> pg_types (snd (pg_types_getitem t oid)) oid = Some (fst (pg_types_getitem t oid))
   \<and> fst (pg_types_getitem (snd (pg_types_getitem t oid)) oid) = fst (pg_types_getitem t oid)
   \<and> (map_of postgres_types oid = Some d \<longrightarrow>
        fst (pg_types_getitem (PostgresTranslate enc count) oid) = d)"
proof (intro conjI impI)
  assume r: "reachable t"
  show "fst (pg_types_getitem t oid) = (FC_TEXT, D_text_recv)"
    if "oid \<notin> fst ` set postgres_types"
    using reachable_unlisted [OF r that]
    by (auto simp: pg_types_getitem_def pg_types_default_def)
  show "pg_types (snd (pg_types_getitem t oid)) oid = Some (fst (pg_types_getitem t oid))"
    by (simp add: pg_types_getitem_def split: option.split)
  show "fst (pg_types_getitem (snd (pg_types_getitem t oid)) oid)
          = fst (pg_types_getitem t oid)"
    by (simp add: pg_types_getitem_def split: option.split)
  show "fst (pg_types_getitem (PostgresTranslate enc count) oid) = d"
    if "map_of postgres_types oid = Some d"
    using that by (simp add: pg_types_getitem_def)
qed

theorem pg_types_lookup_default_witness:
  "reachable (timestamps_are_floats default_translator)
   \<and> 12345 \<notin> fst ` set postgres_types
   \<and> fst (pg_types_getitem (timestamps_are_floats default_translator) 12345)
       = (FC_TEXT, D_text_recv)
   \<and> map_of postgres_types 23 = Some (FC_BINARY, D_int4_recv)
   \<and> fst (pg_types_getitem default_translator 23) = (FC_BINARY, D_int4_recv)"
proof -
  have r: "reachable (timestamps_are_floats default_translator)"
    unfolding default_translator_def by (intro reachable.intros)
  have n: "12345 \<notin> fst ` set postgres_types"
    by (simp add: postgres_types_def)
  have m: "map_of postgres_types 23 = Some (FC_BINARY, D_int4_recv)"
    by (simp add: postgres_types_def)
  from pg_types_lookup_default
    [OF r, of 12345 "(FC_BINARY, D_int4_recv)" "Some ''utf-8''" 20] n
  have "fst (pg_types_getitem (timestamps_are_floats default_translator) 12345)
          = (FC_TEXT, D_text_recv)"
    by blast
  moreover from pg_types_lookup_default
    [OF r, of 23 "(FC_BINARY, D_int4_recv)" "Some ''utf-8''" 20] m
  have "fst (pg_types_getitem default_translator 23) = (FC_BINARY, D_int4_recv)"
    unfolding default_translator_def by blast
  ultimately show ?thesis using r n m by blast
qed

text \<open>
  Claim C10. A freshly constructed translator files the float decoders for the
  timestamp and timestamptz OIDs 1114 and 1184, and at the same time the integer
  encoders for the two timestamp keys and the integer interval codecs; after
  \<^verbatim>\<open>timestamps_are_integers()\<close> all of these entries are the integer codecs,
  after \<^verbatim>\<open>timestamps_are_floats()\<close> all are the float codecs.
\<close>

theorem initial_registry_mixes_representations:
  "pg_types (PostgresTranslate enc count) 1114 = Some (FC_BINARY, D_timestamp_recv_float)
   \<and> pg_types (PostgresTranslate enc count) 1184 = Some (FC_BINARY, D_timestamptz_recv_float)
   \<and> pg_types (PostgresTranslate enc count) 1186 = Some (FC_BINARY, D_interval_recv_integer)
   \<and> py_types (PostgresTranslate enc count) (K_int 1114)
       = Some (1114, FC_BINARY, E_timestamp_send_integer)
   \<and> py_types (PostgresTranslate enc count) (K_int 1184)
       = Some (1184, FC_BINARY, E_timestamptz_send_integer)
   \<and> py_types (PostgresTranslate enc count) T_timedelta
       = Some (1186, FC_BINARY, E_interval_send_integer)
   \<and> py_types (PostgresTranslate enc count) T_Interval
       = Some (1186, FC_BINARY, E_interval_send_integer)
   \<and> pg_types (timestamps_are_integers t) 1114 = Some (FC_BINARY, D_timestamp_recv_integer)
   \<and> pg_types (timestamps_are_integers t) 1184 = Some (FC_BINARY, D_timestamptz_recv_integer)
   \<and> pg_types (timestamps_are_integers t) 1186 = Some (FC_BINARY, D_interval_recv_integer)
   \<and> py_types (timestamps_are_integers t) (K_int 1114)
       = Some (1114, FC_BINARY, E_timestamp_send_integer)
   \<and> py_types (timestamps_are_integers t) (K_int 1184)
       = Some (1184, FC_BINARY, E_timestamptz_send_integer)
   \<and> py_types (timestamps_are_integers t) T_timedelta
       = Some (1186, FC_BINARY, E_interval_send_integer)
   \<and> py_types (timestamps_are_integers t) T_Interval
       = Some (1186, FC_BINARY, E_interval_send_integer)
   \<and> pg_types (timestamps_are_floats t) 1114 = Some (FC_BINARY, D_timestamp_recv_float)
   \<and> pg_types (timestamps_are_floats t) 1184 = Some (FC_BINARY, D_timestamptz_recv_float)
   \<and> pg_types (timestamps_are_floats t) 1186 = Some (FC_BINARY, D_interval_recv_float)
   \<and> py_types (timestamps_are_floats t) (K_int 1114)
       = Some (1114, FC_BINARY, E_timestamp_send_float)
   \<and> py_types (timestamps_are_floats t) (K_int 1184)
       = Some (1184, FC_BINARY, E_timestamptz_send_float)
   \<and> py_types (timestamps_are_floats t) T_timedelta
       = Some (1186, FC_BINARY, E_interval_send_float)
   \<and> py_types (timestamps_are_floats t) T_Interval
       = Some (1186, FC_BINARY, E_interval_send_float)"
  by (simp add: postgres_types_def python_types_def timestamps_are_integers_def
      timestamps_are_floats_def)

subsection \<open>The boolean codec\<close>

text \<open>
  Claim C9. The bool encoder is to return the single byte 0x01 for true and 0x00
  for false. For true it does; for false the encoder evaluates the unbound name
  \<^verbatim>\<open>false\<close> and raises \<^verbatim>\<open>NameError\<close>, so no byte is returned.
\<close>

theorem bool_send_False_raises:
  "bool_send False = Inl (NameError ''false'') \<and> bool_send False \<noteq> Inr (PyBytes [0])"
  by (simp add: bool_send_def load_global_false)

subsection \<open>The table of short-integer runs\<close>

lemma pack_shorts_foldl:
  "pack_shorts (foldl create_pack_shorts_step t xs) =
     (\<lambda>i. if i \<in> set xs then Some (replicate (nat i) Fh) else pack_shorts t i)"
proof (induction xs arbitrary: t)
  case Nil
  then show ?case by simp
next
  case (Cons x xs)
  show ?case
    by (simp add: Cons.IH fun_eq_iff) (simp add: create_pack_shorts_step_def Let_def)
qed

lemma unpack_shorts_foldl:
  "unpack_shorts (foldl create_pack_shorts_step t xs) =
     (\<lambda>i. if i \<in> set xs then Some (replicate (nat i) Fh) else unpack_shorts t i)"
proof (induction xs arbitrary: t)
  case Nil
  then show ?case by simp
next
  case (Cons x xs)
  show ?case
    by (simp add: Cons.IH fun_eq_iff) (simp add: create_pack_shorts_step_def Let_def)
qed

lemma pack_shorts_PostgresTranslate:
  "pack_shorts (PostgresTranslate enc count) i =
     (if 1 \<le> i \<and> i < count then Some (replicate (nat i) Fh) else None)"
  by (auto simp: PostgresTranslate_def create_pack_shorts_def pack_shorts_foldl)

lemma unpack_shorts_PostgresTranslate:
  "unpack_shorts (PostgresTranslate enc count) i =
     (if 1 \<le> i \<and> i < count then Some (replicate (nat i) Fh) else None)"
  by (auto simp: PostgresTranslate_def create_pack_shorts_def unpack_shorts_foldl)

lemma be_bytes_2_zero: "be_bytes 2 0 = [0, 0]"
  by code_simp

lemma struct_pack_shorts_zero:
  "struct_pack (replicate n Fh) (replicate n 0) = Inr (replicate (2 * n) 0)"
  by (induction n) (simp_all add: pack_field_def be_bytes_2_zero)

text \<open>
  Claim C8. With the default configuration (\<open>N = 20\<close>) a pre-built pair is to
  exist for every run length from 1 to \<open>N\<close> inclusive. The constructor's loop is
  \<^verbatim>\<open>range(1, self.max_pack_shorts_count)\<close>, which stops at 19: the keys of both
  tables are 1 to 19, and a row of 20 shorts finds no entry.
\<close>

theorem pack_shorts_stops_at_19:
  "dom (pack_shorts default_translator) = {1..19}
   \<and> dom (unpack_shorts default_translator) = {1..19}
   \<and> pack_shorts default_translator 20 = None
   \<and> unpack_shorts default_translator 20 = None
   \<and> pack_shorts_call default_translator 19 (replicate 19 0) = Inr (replicate 38 0)
   \<and> pack_shorts_call default_translator 20 (replicate 20 0) = Inl KeyError"
proof (intro conjI)
  show "dom (pack_shorts default_translator) = {1..19}"
    by (auto simp: default_translator_def pack_shorts_PostgresTranslate dom_def)
  show "dom (unpack_shorts default_translator) = {1..19}"
    by (auto simp: default_translator_def unpack_shorts_PostgresTranslate dom_def)
  show "pack_shorts default_translator 20 = None"
    by (simp add: default_translator_def pack_shorts_PostgresTranslate)
  show "unpack_shorts default_translator 20 = None"
    by (simp add: default_translator_def unpack_shorts_PostgresTranslate)
  show "pack_shorts_call default_translator 19 (replicate 19 0) = Inr (replicate 38 0)"
    using struct_pack_shorts_zero [of 19]
    by (simp add: pack_shorts_call_def default_translator_def pack_shorts_PostgresTranslate)
  show "pack_shorts_call default_translator 20 (replicate 20 0) = Inl KeyError"
    by (simp add: pack_shorts_call_def default_translator_def pack_shorts_PostgresTranslate)
qed

subsection \<open>The active encoding\<close>

lemma client_encoding_update:
  "reachable t \<Longrightarrow>
   client_encoding (update_client_encoding t name) =
     (case map_of encodings_table name of Some v \<Rightarrow> v | None \<Rightarrow> Some name)"
  by (simp add: update_client_encoding_def reachable_encodings)

text \<open>
  Claim C6. Updating the active encoding with a server name of the table sets the
  active encoding to the name's codec (\<^verbatim>\<open>latin1\<close> gives \<^verbatim>\<open>iso8859-1\<close>); a name
  that the table does not hold becomes the active encoding unchanged; a name that
  the table marks unsupported (\<^verbatim>\<open>mule_internal\<close>) sets the active encoding to
  \<^verbatim>\<open>None\<close>, and with it every call of the text decoder and of the text encoder
  raises \<^verbatim>\<open>TypeError\<close>, whatever the codecs of the runtime and whatever the data.
\<close>

theorem update_client_encoding_table:
  "reachable t \<Longrightarrow>
     client_encoding (update_client_encoding t ''latin1'') = Some ''iso8859-1''
   \<and> (map_of encodings_table name = Some (Some py) \<longrightarrow>
        client_encoding (update_client_encoding t name) = Some py
        \<and> text_recv reg (update_client_encoding t name) data offset len
            = bytes_decode reg (Some py) (py_slice data offset (offset + len))
        \<and> text_out reg (update_client_encoding t name) s = str_encode reg (Some py) s)
   \<and> (name \<notin> fst ` set encodings_table \<longrightarrow>
        client_encoding (update_client_encoding t name) = Some name)
   \<and> map_of encodings_table ''mule_internal'' = Some None
   \<and> (map_of encodings_table name = Some None \<longrightarrow>
        client_encoding (update_client_encoding t name) = None
        \<and> text_recv reg (update_client_encoding t name) data offset len = Inl TypeError
        \<and> text_out reg (update_client_encoding t name) s = Inl TypeError)"
proof -
  assume r: "reachable t"
  have 1: "client_encoding (update_client_encoding t ''latin1'') = Some ''iso8859-1''"
    by (simp add: client_encoding_update [OF r]) (simp add: encodings_table_def)
  have 2: "map_of encodings_table ''mule_internal'' = Some None"
    by (simp add: encodings_table_def)
  have 3: "client_encoding (update_client_encoding t name) = Some name"
    if "name \<notin> fst ` set encodings_table"
  proof -
    from that have "map_of encodings_table name = None"
      by (simp add: map_of_eq_None_iff)
    then show ?thesis by (simp add: client_encoding_update [OF r])
  qed
  have 4: "client_encoding (update_client_encoding t name) = Some py
        \<and> text_recv reg (update_client_encoding t name) data offset len
            = bytes_decode reg (Some py) (py_slice data offset (offset + len))
        \<and> text_out reg (update_client_encoding t name) s = str_encode reg (Some py) s"
    if "map_of encodings_table name = Some (Some py)"
  proof -
    from that have "client_encoding (update_client_encoding t name) = Some py"
      by (simp add: client_encoding_update [OF r])
    then show ?thesis by (simp add: text_recv_def text_out_def)
  qed
  have 5: "client_encoding (update_client_encoding t name) = None
        \<and> text_recv reg (update_client_encoding t name) data offset len = Inl TypeError
        \<and> text_out reg (update_client_encoding t name) s = Inl TypeError"
    if "map_of encodings_table name = Some None"
  proof -
    from that have "client_encoding (update_client_encoding t name) = None"
      by (simp add: client_encoding_update [OF r])
    then show ?thesis
      by (simp add: text_recv_def text_out_def bytes_decode_def str_encode_def)
  qed
  from 1 2 3 4 5 show ?thesis by blast
qed

theorem update_client_encoding_table_witness:
  "reachable default_translator
   \<and> map_of encodings_table ''latin1'' = Some (Some ''iso8859-1'')
   \<and> text_recv sample_codecs (update_client_encoding default_translator ''latin1'')
       [0x61, 0xE9, 0x62] 0 2 = Inr [0x61, 0xE9]
   \<and> text_out sample_codecs (update_client_encoding default_translator ''latin1'')
       [0x61, 0xE9] = Inr [0x61, 0xE9]
   \<and> ''UTF8'' \<notin> fst ` set encodings_table
   \<and> client_encoding (update_client_encoding default_translator ''UTF8'') = Some ''UTF8''
   \<and> map_of encodings_table ''mule_internal'' = Some None
   \<and> text_recv sample_codecs (update_client_encoding default_translator ''mule_internal'')
       [0x61] 0 1 = Inl TypeError
   \<and> text_out sample_codecs (update_client_encoding default_translator ''mule_internal'')
       [0x61] = Inl TypeError"
proof -
  have r: "reachable default_translator"
    unfolding default_translator_def by (rule reachable.constructed)
  have l: "map_of encodings_table ''latin1'' = Some (Some ''iso8859-1'')"
    by (simp add: encodings_table_def)
  have u: "''UTF8'' \<notin> fst ` set encodings_table"
    by (simp add: encodings_table_def)
  have m: "map_of encodings_table ''mule_internal'' = Some None"
    by (simp add: encodings_table_def)
  have d: "bytes_decode sample_codecs (Some ''iso8859-1'') (py_slice [0x61, 0xE9, 0x62] 0 (0 + 2))
             = Inr [0x61, 0xE9]"
    by (simp add: bytes_decode_def sample_codecs_def latin1_codec_def py_slice_def
        slice_bound_def)
  have e: "str_encode sample_codecs (Some ''iso8859-1'') [0x61, 0xE9] = Inr [0x61, 0xE9]"
    by (simp add: str_encode_def sample_codecs_def latin1_codec_def)
  note a = update_client_encoding_table
    [OF r, of "''latin1''" "''iso8859-1''" sample_codecs "[0x61, 0xE9, 0x62]" 0 2 "[0x61, 0xE9]"]
  note b = update_client_encoding_table
    [OF r, of "''UTF8''" "[]" sample_codecs "[]" 0 0 "[]"]
  note c = update_client_encoding_table
    [OF r, of "''mule_internal''" "[]" sample_codecs "[0x61]" 0 1 "[0x61]"]
  from a l d e have
    "text_recv sample_codecs (update_client_encoding default_translator ''latin1'')
       [0x61, 0xE9, 0x62] 0 2 = Inr [0x61, 0xE9]"
    "text_out sample_codecs (update_client_encoding default_translator ''latin1'')
       [0x61, 0xE9] = Inr [0x61, 0xE9]"
    by simp_all
  moreover from b u have
    "client_encoding (update_client_encoding default_translator ''UTF8'') = Some ''UTF8''"
    by blast
  moreover from c m have
    "text_recv sample_codecs (update_client_encoding default_translator ''mule_internal'')
       [0x61] 0 1 = Inl TypeError"
    "text_out sample_codecs (update_client_encoding default_translator ''mule_internal'')
       [0x61] = Inl TypeError"
    by blast+
  ultimately show ?thesis using r l u m by blast
qed


subsection \<open>What a decoder reads\<close>






























subsection \<open>Timestamps with time zone\<close>

lemma load_global_utc: "load_global ''utc'' = Inl (NameError ''utc'')"
  by (simp add: load_global_def module_globals_def builtin_names_def)

lemma datetime_add_tzinfo:
  "datetime_add dt delta = Inr dt' \<Longrightarrow> tzinfo dt' = tzinfo dt"
  by (auto simp: datetime_add_def Let_def split: if_splits)

lemma timestamptz_recv_integer_utc:
  assumes "timestamptz_recv_integer data offset len = Inr dt"
  shows "tzinfo dt = Some TzUTC"
proof -
  from assms obtain micros where m: "first_field (q_unpack data offset) = Inr micros"
    by (auto simp: timestamptz_recv_integer_def split: sum.splits)
  have tz: "tzinfo epoch_tz = Some TzUTC" "tzinfo datetime_max_tz = Some TzUTC"
    "tzinfo datetime_min_tz = Some TzUTC"
    by (simp_all add: epoch_tz_def datetime_max_tz_def datetime_min_tz_def
        replace_tzinfo_def)
  show ?thesis
  proof (cases "timedelta_microseconds micros")
    case (Inl e)
    with assms m tz show ?thesis
      by (auto simp: timestamptz_recv_integer_def split: error.splits if_splits)
  next
    case (Inr delta)
    show ?thesis
    proof (cases "datetime_add epoch_tz delta")
      case (Inl e)
      with assms m tz Inr show ?thesis
        by (auto simp: timestamptz_recv_integer_def split: error.splits if_splits)
    next
      case r: (Inr d)
      with assms m Inr have "dt = d"
        by (simp add: timestamptz_recv_integer_def)
      with datetime_add_tzinfo [OF r] tz show ?thesis by simp
    qed
  qed
qed

lemma timestamptz_send_integer_normalizes:
  assumes "tzinfo ts = Some (TzOther off)" and "\<bar>off\<bar> < day_us"
    and "0 \<le> ticks ts - off" and "ticks ts - off \<le> ticks datetime_max"
  shows "timestamptz_send_integer local ts
           = timestamp_send_integer \<lparr>ticks = ticks ts - off, tzinfo = None\<rparr>"
  using assms
  by (cases ts)
    (simp add: timestamptz_send_integer_def astimezone_utc_def utcoffset_def
      datetime_add_def replace_tzinfo_def Let_def)

lemma timestamptz_send_float_normalizes:
  assumes "tzinfo ts = Some (TzOther off)" and "\<bar>off\<bar> < day_us"
    and "0 \<le> ticks ts - off" and "ticks ts - off \<le> ticks datetime_max"
  shows "timestamptz_send_float local dpack ts
           = Inr (timestamp_send_float dpack \<lparr>ticks = ticks ts - off, tzinfo = None\<rparr>)"
  using assms
  by (cases ts)
    (simp add: timestamptz_send_float_def astimezone_utc_def utcoffset_def
      datetime_add_def replace_tzinfo_def Let_def)

text \<open>
  Claim C7. Under both representations, decoding a timestamptz value is to return
  a datetime that carries UTC. Under the float representation the decoder never
  returns a datetime: whatever the eight bytes and whatever the runtime makes of
  the double, it ends in an exception; where the inner decoder succeeds, the
  exception is the \<^verbatim>\<open>NameError\<close> of the unbound name \<^verbatim>\<open>utc\<close>. The wire value
  of eight zero bytes is the double 0.0, the epoch itself.
\<close>

theorem timestamptz_recv_float_raises:
  "timestamptz_recv_float utcfromtimestamp data offset len \<noteq> Inr dt
   \<and> timestamptz_recv_float (\<lambda>x. Inr epoch) [0, 0, 0, 0, 0, 0, 0, 0] 0 8
       = Inl (NameError ''utc'')"
  by (simp add: timestamptz_recv_float_def load_global_utc timestamp_recv_float_def
      d_unpack_def unpack_from_raw_def split: sum.split)


subsection \<open>Array inference\<close>

lemma load_global_packs:
  "load_global ''h_pack'' = Inl (NameError ''h_pack'')"
  "load_global ''i_pack'' = Inl (NameError ''i_pack'')"
  "load_global ''q_pack'' = Inl (NameError ''q_pack'')"
  "load_global ''first_element'' = Inl (NameError ''first_element'')"
  "load_global ''NotSupportedError'' = Inl (NameError ''NotSupportedError'')"
  by (simp_all add: load_global_def module_globals_def builtin_names_def)

lemma run_name_neq_flatten_array:
  "replicate n CHR ''h'' @ ''_pack'' \<noteq> ''flatten_array''"
  "replicate n CHR ''h'' @ ''_unpack'' \<noteq> ''flatten_array''"
  by (cases n; simp)+

lemma getattr_self_flatten_array:
  "getattr_self t ''flatten_array'' = Inl (AttributeError ''flatten_array'')"
proof -
  have "''flatten_array'' \<notin> set class_attributes"
    by (simp add: class_attributes_def)
  moreover have "''flatten_array'' \<notin> set (instance_attributes t)"
    using run_name_neq_flatten_array
    by (auto simp: instance_attributes_def pack_func_names_def binary_formats_def)
  ultimately show ?thesis by (simp add: getattr_self_def)
qed

lemma inspect_others_raises: "inspect_others = Inl (NameError ''NotSupportedError'')"
  by (simp add: inspect_others_def load_global_packs array_handlers_def)

lemma inspect_flattened_raises: "inspect_flattened flattened \<noteq> Inr r"
  by (auto simp: inspect_flattened_def load_global_packs inspect_others_raises
      split: list.splits sum.splits)

lemma probe_widths_boundaries:
  "probe_widths [PyInt (- (2 ^ 15))] (True, True, True) = Inr (False, True, True)"
  "probe_widths [PyInt (2 ^ 15 - 1)] (True, True, True) = Inr (True, True, True)"
  "probe_widths [PyInt (- (2 ^ 15) + 1)] (True, True, True) = Inr (True, True, True)"
  "probe_widths [PyInt (- (2 ^ 31))] (True, True, True) = Inr (False, False, True)"
  "probe_widths [PyInt (- (2 ^ 63))] (True, True, True) = Inr (False, False, False)"
  by (simp_all add: MIN_INT2_def MAX_INT2_def MIN_INT4_def MAX_INT4_def MIN_INT8_def
      MAX_INT8_def)

text \<open>
  Claim C4. For a list of integers the array encoding is to infer the narrowest
  of int2[], int4[] and int8[]. \<^verbatim>\<open>inspect_array\<close> returns no array OID for any
  list: its first statement reads the attribute \<^verbatim>\<open>flatten_array\<close>, which a
  translator does not have. On the flattened list the rest of the body would not
  return one either: each integer branch ends in the unbound name of its element
  encoder. Its width test is strict on both sides, so that \<open>- (2 ^ 15)\<close> alone
  already clears the int2 flag.
\<close>

theorem inspect_array_raises:
  "inspect_array t val \<noteq> Inr r
   \<and> inspect_array default_translator [PyInt (- (2 ^ 15))]
       = Inl (AttributeError ''flatten_array'')
   \<and> inspect_array default_translator [PyInt 1] = Inl (AttributeError ''flatten_array'')
   \<and> inspect_flattened flattened \<noteq> Inr r
   \<and> inspect_flattened [PyInt 1] = Inl (NameError ''h_pack'')
   \<and> inspect_flattened [PyInt (- (2 ^ 15))] = Inl (NameError ''i_pack'')
   \<and> probe_widths [PyInt (- (2 ^ 15))] (True, True, True) = Inr (False, True, True)"
proof (intro conjI)
  show "inspect_array t val \<noteq> Inr r"
    by (simp add: inspect_array_def getattr_self_flatten_array)
  show "inspect_array default_translator [PyInt (- (2 ^ 15))]
          = Inl (AttributeError ''flatten_array'')"
    by (simp add: inspect_array_def getattr_self_flatten_array)
  show "inspect_array default_translator [PyInt 1] = Inl (AttributeError ''flatten_array'')"
    by (simp add: inspect_array_def getattr_self_flatten_array)
  show "inspect_flattened flattened \<noteq> Inr r"
    by (rule inspect_flattened_raises)
  show "inspect_flattened [PyInt 1] = Inl (NameError ''h_pack'')"
    by (simp add: inspect_flattened_def load_global_packs MIN_INT2_def MAX_INT2_def)
  show "inspect_flattened [PyInt (- (2 ^ 15))] = Inl (NameError ''i_pack'')"
    by (simp add: inspect_flattened_def load_global_packs MIN_INT2_def MAX_INT2_def
        MIN_INT4_def MAX_INT4_def)
  show "probe_widths [PyInt (- (2 ^ 15))] (True, True, True) = Inr (False, True, True)"
    by (rule probe_widths_boundaries)
qed


subsection \<open>The startup message\<close>

lemma utf8_encode_keys:
  "utf8_encode (text_of ''user'') = Inr (bytes_of ''user'')"
  "utf8_encode (text_of ''database'') = Inr (bytes_of ''database'')"
  "utf8_encode (text_of ''application_name'') = Inr (bytes_of ''application_name'')"
  "utf8_encode (text_of ''u'') = Inr (bytes_of ''u'')"
  "utf8_encode (text_of ''db'') = Inr (bytes_of ''db'')"
  by (simp_all add: text_of_def bytes_of_def utf8_char_def)

lemma make_argument_text:
  "utf8_encode k = Inr kb \<Longrightarrow> utf8_encode v = Inr vb \<Longrightarrow>
   make_argument (PyStr k) (PyStr v) = Inr (kb @ [0] @ vb @ [0])"
  by (simp add: make_argument_def encode_if_text_def expect_bytes_def null_byte_def)

lemma make_argument_bytes:
  "utf8_encode k = Inr kb \<Longrightarrow>
   make_argument (PyStr k) (PyBytes vb) = Inr (kb @ [0] @ vb @ [0])"
  by (simp add: make_argument_def encode_if_text_def expect_bytes_def null_byte_def)

lemma i_pack_version: "i_pack DEFAULT_PROTOCOL_VERSION = Inr [0, 3, 0, 0]"
  by code_simp

lemma i_pack_in_range:
  "0 \<le> v \<Longrightarrow> v < 2 ^ 31 \<Longrightarrow> i_pack v = Inr (be_bytes 4 v)"
  by (simp add: i_pack_def pack_field_def)

lemma be_bytes_28: "be_bytes 4 28 = [0, 0, 0, 28]"
  by code_simp

lemma APPLICATION_NAME_not_empty: "APPLICATION_NAME hostname pid executable \<noteq> []"
  by (simp add: APPLICATION_NAME_def text_of_def)

lemma construct'_plain:
  "construct' (PyStr (text_of ''db'')) (PyStr (text_of ''u'')) None enc PyNone []
     = Inr ([0, 0, 0, 28] @ [0, 3, 0, 0]
            @ bytes_of ''user'' @ [0] @ bytes_of ''u'' @ [0]
            @ bytes_of ''database'' @ [0] @ bytes_of ''db'' @ [0] @ [0])"
  by (simp add: construct'_def make_argument_text utf8_encode_keys i_pack_version
      null_byte_def i_pack_in_range be_bytes_28 bytes_of_def)

lemma construct_default_name:
  assumes "utf8_encode (APPLICATION_NAME hostname pid executable) = Inr name"
    and "int (length name) < 2 ^ 31 - 46"
  shows "construct (APPLICATION_NAME hostname pid executable)
           (PyStr (text_of ''db'')) (PyStr (text_of ''u'')) None enc PyNone []
         = Inr (be_bytes 4 (46 + int (length name)) @ [0, 3, 0, 0]
                @ bytes_of ''user'' @ [0] @ bytes_of ''u'' @ [0]
                @ bytes_of ''database'' @ [0] @ bytes_of ''db'' @ [0]
                @ bytes_of ''application_name'' @ [0] @ name @ [0] @ [0])"
proof -
  have len: "i_pack (46 + int (length name)) = Inr (be_bytes 4 (46 + int (length name)))"
    using assms(2) by (intro i_pack_in_range) simp_all
  show ?thesis
    using len
    by (simp add: construct_def construct'_def APPLICATION_NAME_not_empty
        make_argument_text [OF _ assms(1)] make_argument_text utf8_encode_keys
        i_pack_version null_byte_def bytes_of_def)
qed

lemma make_arguments_layout:
  assumes "list_all2
             (\<lambda>(k, v) (kb, vb). utf8_encode k = Inr kb
                \<and> (v = PyBytes vb \<or> (\<exists>s. v = PyStr s \<and> utf8_encode s = Inr vb)))
             kwargs pairs"
  shows "make_arguments kwargs = Inr (concat (map (\<lambda>(kb, vb). kb @ [0] @ vb @ [0]) pairs))"
  using assms
  by (induction rule: list_all2_induct)
    (auto simp: make_argument_text make_argument_bytes)

lemma construct'_named:
  assumes "a \<noteq> []" and "utf8_encode a = Inr ab" and "make_arguments kwargs = Inr m4"
    and "int (length ab) + int (length m4) < 2 ^ 31 - 46"
  shows "construct' (PyStr (text_of ''db'')) (PyStr (text_of ''u'')) None enc (PyStr a) kwargs
         = Inr (be_bytes 4 (46 + int (length ab) + int (length m4)) @ [0, 3, 0, 0]
                @ bytes_of ''user'' @ [0] @ bytes_of ''u'' @ [0]
                @ bytes_of ''database'' @ [0] @ bytes_of ''db'' @ [0]
                @ bytes_of ''application_name'' @ [0] @ ab @ [0] @ m4 @ [0])"
  using assms
  by (simp add: construct'_def make_argument_text utf8_encode_keys i_pack_version
      null_byte_def bytes_of_def i_pack_in_range)
    (simp add: add.assoc)

lemma construct'_unnamed:
  assumes "\<not> truthy app" and "make_arguments kwargs = Inr m4"
    and "int (length m4) < 2 ^ 31 - 28"
  shows "construct' (PyStr (text_of ''db'')) (PyStr (text_of ''u'')) None enc app kwargs
         = Inr (be_bytes 4 (28 + int (length m4)) @ [0, 3, 0, 0]
                @ bytes_of ''user'' @ [0] @ bytes_of ''u'' @ [0]
                @ bytes_of ''database'' @ [0] @ bytes_of ''db'' @ [0] @ m4 @ [0])"
  using assms
  by (simp add: construct'_def make_argument_text utf8_encode_keys i_pack_version
      null_byte_def bytes_of_def i_pack_in_range)

text \<open>
  Claim C2, as stated: \<^verbatim>\<open>construct(database="db", user="u",
  client_encoding="utf-8")\<close> gives the length, the version and exactly the region
  \<^verbatim>\<open>user\0u\0database\0db\0\<close> with its terminator. In a process on host \<^verbatim>\<open>h\<close>
  with process id 1 and executable \<^verbatim>\<open>python\<close> the message is another one: it is
  56 bytes long and holds the application name.
\<close>

theorem construct_defaults_counterexample:
  "construct (APPLICATION_NAME (text_of ''h'') (text_of ''1'') (text_of ''python''))
     (PyStr (text_of ''db'')) (PyStr (text_of ''u'')) None (Some ''utf-8'') PyNone []
   \<noteq> Inr ([0, 0, 0, 28] @ [0, 3, 0, 0]
          @ bytes_of ''user'' @ [0] @ bytes_of ''u'' @ [0]
          @ bytes_of ''database'' @ [0] @ bytes_of ''db'' @ [0] @ [0])"
  by code_simp

text \<open>
  Claim C2, amended. With the other arguments at their defaults, \<^verbatim>\<open>construct\<close>
  replaces the missing application name by the name of the process, which is
  never empty; the message is the 4-byte length of the whole message, the version
  \<open>0x00030000\<close>, then \<^verbatim>\<open>user\0u\0\<close>, \<^verbatim>\<open>database\0db\0\<close>,
  \<^verbatim>\<open>application_name\0\<close> with the name in UTF-8 and its zero byte, then the
  terminating zero byte. The region \<^verbatim>\<open>user\0u\0database\0db\0\<close> with nothing but
  the terminator after it is what \<^verbatim>\<open>construct\<close> gives for an empty application
  name, and \<^verbatim>\<open>_construct\<close> for none.

  The order of the keys is \<^verbatim>\<open>user\<close>, \<^verbatim>\<open>database\<close>, \<^verbatim>\<open>application_name\<close> when it
  is not empty, then the extra parameters in the caller's order. It is stated for
  any list of extra parameters whose names and values can be put into bytes:
  \<open>pairs\<close> holds, in the order of \<open>kwargs\<close>, the UTF-8 bytes of each name and the
  bytes of each value (a byte string itself, or the UTF-8 bytes of a text string).
\<close>

theorem construct_layout:
  "(utf8_encode (APPLICATION_NAME hostname pid executable) = Inr name
      \<and> int (length name) < 2 ^ 31 - 46 \<longrightarrow>
    construct (APPLICATION_NAME hostname pid executable)
        (PyStr (text_of ''db'')) (PyStr (text_of ''u'')) None enc PyNone []
      = Inr (be_bytes 4 (46 + int (length name)) @ [0, 3, 0, 0]
             @ bytes_of ''user'' @ [0] @ bytes_of ''u'' @ [0]
             @ bytes_of ''database'' @ [0] @ bytes_of ''db'' @ [0]
             @ bytes_of ''application_name'' @ [0] @ name @ [0] @ [0]))
   \<and> construct default_name (PyStr (text_of ''db'')) (PyStr (text_of ''u'')) None enc
        (PyStr []) []
      = Inr ([0, 0, 0, 28] @ [0, 3, 0, 0]
             @ bytes_of ''user'' @ [0] @ bytes_of ''u'' @ [0]
             @ bytes_of ''database'' @ [0] @ bytes_of ''db'' @ [0] @ [0])
   \<and> construct' (PyStr (text_of ''db'')) (PyStr (text_of ''u'')) None enc PyNone []
      = Inr ([0, 0, 0, 28] @ [0, 3, 0, 0]
             @ bytes_of ''user'' @ [0] @ bytes_of ''u'' @ [0]
             @ bytes_of ''database'' @ [0] @ bytes_of ''db'' @ [0] @ [0])
   \<and> (list_all2
         (\<lambda>(k, v) (kb, vb). utf8_encode k = Inr kb
            \<and> (v = PyBytes vb \<or> (\<exists>s. v = PyStr s \<and> utf8_encode s = Inr vb)))
         kwargs pairs \<longrightarrow>
       (utf8_encode (APPLICATION_NAME hostname pid executable) = Inr name
          \<and> int (length name)
              + int (length (concat (map (\<lambda>(kb, vb). kb @ [0] @ vb @ [0]) pairs)))
              < 2 ^ 31 - 46 \<longrightarrow>
        construct (APPLICATION_NAME hostname pid executable)
            (PyStr (text_of ''db'')) (PyStr (text_of ''u'')) None enc PyNone kwargs
          = Inr (be_bytes 4
                   (46 + int (length name)
                    + int (length (concat (map (\<lambda>(kb, vb). kb @ [0] @ vb @ [0]) pairs))))
                 @ [0, 3, 0, 0]
                 @ bytes_of ''user'' @ [0] @ bytes_of ''u'' @ [0]
                 @ bytes_of ''database'' @ [0] @ bytes_of ''db'' @ [0]
                 @ bytes_of ''application_name'' @ [0] @ name @ [0]
                 @ concat (map (\<lambda>(kb, vb). kb @ [0] @ vb @ [0]) pairs) @ [0]))
     \<and> (a \<noteq> [] \<and> utf8_encode a = Inr ab
          \<and> int (length ab)
              + int (length (concat (map (\<lambda>(kb, vb). kb @ [0] @ vb @ [0]) pairs)))
              < 2 ^ 31 - 46 \<longrightarrow>
        construct default_name
            (PyStr (text_of ''db'')) (PyStr (text_of ''u'')) None enc (PyStr a) kwargs
          = Inr (be_bytes 4
                   (46 + int (length ab)
                    + int (length (concat (map (\<lambda>(kb, vb). kb @ [0] @ vb @ [0]) pairs))))
                 @ [0, 3, 0, 0]
                 @ bytes_of ''user'' @ [0] @ bytes_of ''u'' @ [0]
                 @ bytes_of ''database'' @ [0] @ bytes_of ''db'' @ [0]
                 @ bytes_of ''application_name'' @ [0] @ ab @ [0]
                 @ concat (map (\<lambda>(kb, vb). kb @ [0] @ vb @ [0]) pairs) @ [0]))
     \<and> (int (length (concat (map (\<lambda>(kb, vb). kb @ [0] @ vb @ [0]) pairs)))
          < 2 ^ 31 - 28 \<longrightarrow>
        construct' (PyStr (text_of ''db'')) (PyStr (text_of ''u'')) None enc PyNone kwargs
          = Inr (be_bytes 4
                   (28 + int (length (concat (map (\<lambda>(kb, vb). kb @ [0] @ vb @ [0]) pairs))))
                 @ [0, 3, 0, 0]
                 @ bytes_of ''user'' @ [0] @ bytes_of ''u'' @ [0]
                 @ bytes_of ''database'' @ [0] @ bytes_of ''db'' @ [0]
                 @ concat (map (\<lambda>(kb, vb). kb @ [0] @ vb @ [0]) pairs) @ [0])))"
proof -
  let ?plain = "Inr ([0, 0, 0, 28] @ [0, 3, 0, 0]
             @ bytes_of ''user'' @ [0] @ bytes_of ''u'' @ [0]
             @ bytes_of ''database'' @ [0] @ bytes_of ''db'' @ [0] @ [0])"
  let ?extras = "concat (map (\<lambda>(kb, vb). kb @ [0] @ vb @ [0]) pairs)"
  have 1: "construct (APPLICATION_NAME hostname pid executable)
          (PyStr (text_of ''db'')) (PyStr (text_of ''u'')) None enc PyNone []
        = Inr (be_bytes 4 (46 + int (length name)) @ [0, 3, 0, 0]
               @ bytes_of ''user'' @ [0] @ bytes_of ''u'' @ [0]
               @ bytes_of ''database'' @ [0] @ bytes_of ''db'' @ [0]
               @ bytes_of ''application_name'' @ [0] @ name @ [0] @ [0])"
    if "utf8_encode (APPLICATION_NAME hostname pid executable) = Inr name
        \<and> int (length name) < 2 ^ 31 - 46"
    using that by (intro construct_default_name) blast+
  have "construct default_name (PyStr (text_of ''db'')) (PyStr (text_of ''u'')) None enc
          (PyStr []) []
        = construct' (PyStr (text_of ''db'')) (PyStr (text_of ''u'')) None enc PyNone []"
    by (simp add: construct_def construct'_def)
  then have 2: "construct default_name (PyStr (text_of ''db'')) (PyStr (text_of ''u'')) None
          enc (PyStr []) [] = ?plain"
    by (simp only: construct'_plain)
  have 3: "construct' (PyStr (text_of ''db'')) (PyStr (text_of ''u'')) None enc PyNone []
        = ?plain"
    by (rule construct'_plain)
  have 4: "construct (APPLICATION_NAME hostname pid executable)
            (PyStr (text_of ''db'')) (PyStr (text_of ''u'')) None enc PyNone kwargs
          = Inr (be_bytes 4 (46 + int (length name) + int (length ?extras))
                 @ [0, 3, 0, 0]
                 @ bytes_of ''user'' @ [0] @ bytes_of ''u'' @ [0]
                 @ bytes_of ''database'' @ [0] @ bytes_of ''db'' @ [0]
                 @ bytes_of ''application_name'' @ [0] @ name @ [0] @ ?extras @ [0])"
    if "make_arguments kwargs = Inr ?extras"
      and "utf8_encode (APPLICATION_NAME hostname pid executable) = Inr name
          \<and> int (length name) + int (length ?extras) < 2 ^ 31 - 46"
  proof -
    have "construct (APPLICATION_NAME hostname pid executable)
            (PyStr (text_of ''db'')) (PyStr (text_of ''u'')) None enc PyNone kwargs
          = construct' (PyStr (text_of ''db'')) (PyStr (text_of ''u'')) None enc
              (PyStr (APPLICATION_NAME hostname pid executable)) kwargs"
      by (simp add: construct_def)
    also have "\<dots> = Inr (be_bytes 4 (46 + int (length name) + int (length ?extras))
                 @ [0, 3, 0, 0]
                 @ bytes_of ''user'' @ [0] @ bytes_of ''u'' @ [0]
                 @ bytes_of ''database'' @ [0] @ bytes_of ''db'' @ [0]
                 @ bytes_of ''application_name'' @ [0] @ name @ [0] @ ?extras @ [0])"
      using that by (intro construct'_named APPLICATION_NAME_not_empty) blast+
    finally show ?thesis .
  qed
  have 5: "construct default_name
            (PyStr (text_of ''db'')) (PyStr (text_of ''u'')) None enc (PyStr a) kwargs
          = Inr (be_bytes 4 (46 + int (length ab) + int (length ?extras))
                 @ [0, 3, 0, 0]
                 @ bytes_of ''user'' @ [0] @ bytes_of ''u'' @ [0]
                 @ bytes_of ''database'' @ [0] @ bytes_of ''db'' @ [0]
                 @ bytes_of ''application_name'' @ [0] @ ab @ [0] @ ?extras @ [0])"
    if "make_arguments kwargs = Inr ?extras"
      and "a \<noteq> [] \<and> utf8_encode a = Inr ab
          \<and> int (length ab) + int (length ?extras) < 2 ^ 31 - 46"
  proof -
    have "construct default_name
            (PyStr (text_of ''db'')) (PyStr (text_of ''u'')) None enc (PyStr a) kwargs
          = construct' (PyStr (text_of ''db'')) (PyStr (text_of ''u'')) None enc
              (PyStr a) kwargs"
      by (simp add: construct_def)
    also have "\<dots> = Inr (be_bytes 4 (46 + int (length ab) + int (length ?extras))
                 @ [0, 3, 0, 0]
                 @ bytes_of ''user'' @ [0] @ bytes_of ''u'' @ [0]
                 @ bytes_of ''database'' @ [0] @ bytes_of ''db'' @ [0]
                 @ bytes_of ''application_name'' @ [0] @ ab @ [0] @ ?extras @ [0])"
      using that by (intro construct'_named) blast+
    finally show ?thesis .
  qed
  have 6: "construct' (PyStr (text_of ''db'')) (PyStr (text_of ''u'')) None enc PyNone kwargs
          = Inr (be_bytes 4 (28 + int (length ?extras))
                 @ [0, 3, 0, 0]
                 @ bytes_of ''user'' @ [0] @ bytes_of ''u'' @ [0]
                 @ bytes_of ''database'' @ [0] @ bytes_of ''db'' @ [0] @ ?extras @ [0])"
    if "make_arguments kwargs = Inr ?extras" and "int (length ?extras) < 2 ^ 31 - 28"
    using that by (intro construct'_unnamed) simp_all
  show ?thesis
    using 1 2 3 4 5 6 make_arguments_layout [of kwargs pairs] by blast
qed

theorem construct_layout_witness:
  "construct (APPLICATION_NAME (text_of ''h'') (text_of ''1'') (text_of ''python''))
       (PyStr (text_of ''db'')) (PyStr (text_of ''u'')) None (Some ''utf-8'') PyNone []
     = Inr ([0, 0, 0, 56] @ [0, 3, 0, 0]
            @ bytes_of ''user'' @ [0] @ bytes_of ''u'' @ [0]
            @ bytes_of ''database'' @ [0] @ bytes_of ''db'' @ [0]
            @ bytes_of ''application_name'' @ [0] @ bytes_of ''h_1_python'' @ [0] @ [0])
   \<and> construct' (PyStr (text_of ''db'')) (PyStr (text_of ''u'')) None (Some ''utf-8'') PyNone
       [(text_of ''a'', PyBytes [0x62]), (text_of ''c'', PyStr (text_of ''d''))]
     = Inr ([0, 0, 0, 36] @ [0, 3, 0, 0]
            @ bytes_of ''user'' @ [0] @ bytes_of ''u'' @ [0]
            @ bytes_of ''database'' @ [0] @ bytes_of ''db'' @ [0]
            @ [0x61, 0, 0x62, 0, 0x63, 0, 0x64, 0] @ [0])
   \<and> construct (APPLICATION_NAME (text_of ''h'') (text_of ''1'') (text_of ''python''))
       (PyStr (text_of ''db'')) (PyStr (text_of ''u'')) None (Some ''utf-8'') PyNone
       [(text_of ''a'', PyBytes [0x62]), (text_of ''c'', PyStr (text_of ''d''))]
     = Inr ([0, 0, 0, 64] @ [0, 3, 0, 0]
            @ bytes_of ''user'' @ [0] @ bytes_of ''u'' @ [0]
            @ bytes_of ''database'' @ [0] @ bytes_of ''db'' @ [0]
            @ bytes_of ''application_name'' @ [0] @ bytes_of ''h_1_python'' @ [0]
            @ [0x61, 0, 0x62, 0, 0x63, 0, 0x64, 0] @ [0])
   \<and> construct (text_of ''ignored'')
       (PyStr (text_of ''db'')) (PyStr (text_of ''u'')) None (Some ''utf-8'')
       (PyStr (text_of ''x''))
       [(text_of ''a'', PyBytes [0x62]), (text_of ''c'', PyStr (text_of ''d''))]
     = Inr ([0, 0, 0, 55] @ [0, 3, 0, 0]
            @ bytes_of ''user'' @ [0] @ bytes_of ''u'' @ [0]
            @ bytes_of ''database'' @ [0] @ bytes_of ''db'' @ [0]
            @ bytes_of ''application_name'' @ [0] @ [0x78] @ [0]
            @ [0x61, 0, 0x62, 0, 0x63, 0, 0x64, 0] @ [0])"
proof -
  let ?kwargs = "[(text_of ''a'', PyBytes [0x62]), (text_of ''c'', PyStr (text_of ''d''))]"
  let ?pairs = "[([0x61], [0x62]), ([0x63], [0x64])] :: (bytes \<times> bytes) list"
  have n: "utf8_encode (APPLICATION_NAME (text_of ''h'') (text_of ''1'') (text_of ''python''))
             = Inr (bytes_of ''h_1_python'')"
    by code_simp
  have l: "int (length (bytes_of ''h_1_python'')) < 2 ^ 31 - 46"
    by (simp add: bytes_of_def)
  have k: "utf8_encode (text_of ''a'') = Inr [0x61]" "utf8_encode (text_of ''c'') = Inr [0x63]"
    "utf8_encode (text_of ''d'') = Inr [0x64]" "utf8_encode (text_of ''x'') = Inr [0x78]"
    by code_simp+
  have r: "list_all2
             (\<lambda>(k, v) (kb, vb). utf8_encode k = Inr kb
                \<and> (v = PyBytes vb \<or> (\<exists>s. v = PyStr s \<and> utf8_encode s = Inr vb)))
             ?kwargs ?pairs"
    by (simp add: k)
  have e: "concat (map (\<lambda>(kb, vb). kb @ [0] @ vb @ [0]) ?pairs)
             = [0x61, 0, 0x62, 0, 0x63, 0, 0x64, 0]"
    by simp
  have x: "text_of ''x'' \<noteq> []"
    by (simp add: text_of_def)
  have b: "be_bytes 4 (46 + int (length (bytes_of ''h_1_python''))) = [0, 0, 0, 56]"
    "be_bytes 4 (28 + int (length [0x61, 0, 0x62, 0, 0x63, 0, 0x64, 0 :: byte]))
       = [0, 0, 0, 36]"
    "be_bytes 4 (46 + int (length (bytes_of ''h_1_python''))
       + int (length [0x61, 0, 0x62, 0, 0x63, 0, 0x64, 0 :: byte])) = [0, 0, 0, 64]"
    "be_bytes 4 (46 + int (length [0x78 :: byte])
       + int (length [0x61, 0, 0x62, 0, 0x63, 0, 0x64, 0 :: byte])) = [0, 0, 0, 55]"
    by code_simp+
  note t = construct_layout
    [where hostname = "text_of ''h''" and pid = "text_of ''1''"
       and executable = "text_of ''python''" and name = "bytes_of ''h_1_python''"
       and enc = "Some ''utf-8''" and default_name = "text_of ''ignored''"
       and kwargs = ?kwargs and pairs = ?pairs
       and a = "text_of ''x''" and ab = "[0x78]"]
  have c1: "construct (APPLICATION_NAME (text_of ''h'') (text_of ''1'') (text_of ''python''))
       (PyStr (text_of ''db'')) (PyStr (text_of ''u'')) None (Some ''utf-8'') PyNone []
     = Inr (be_bytes 4 (46 + int (length (bytes_of ''h_1_python''))) @ [0, 3, 0, 0]
            @ bytes_of ''user'' @ [0] @ bytes_of ''u'' @ [0]
            @ bytes_of ''database'' @ [0] @ bytes_of ''db'' @ [0]
            @ bytes_of ''application_name'' @ [0] @ bytes_of ''h_1_python'' @ [0] @ [0])"
    using t n l by blast
  have l2: "int (length (bytes_of ''h_1_python''))
              + int (length (concat (map (\<lambda>(kb, vb). kb @ [0] @ vb @ [0]) ?pairs)))
              < 2 ^ 31 - 46"
    by (simp add: bytes_of_def)
  have l3: "int (length [0x78 :: byte])
              + int (length (concat (map (\<lambda>(kb, vb). kb @ [0] @ vb @ [0]) ?pairs)))
              < 2 ^ 31 - 46"
    by simp
  have l4: "int (length (concat (map (\<lambda>(kb, vb). kb @ [0] @ vb @ [0]) ?pairs)))
              < 2 ^ 31 - 28"
    by simp
  from t r have g:
    "(utf8_encode (APPLICATION_NAME (text_of ''h'') (text_of ''1'') (text_of ''python''))
          = Inr (bytes_of ''h_1_python'')
        \<and> int (length (bytes_of ''h_1_python''))
            + int (length (concat (map (\<lambda>(kb, vb). kb @ [0] @ vb @ [0]) ?pairs)))
            < 2 ^ 31 - 46 \<longrightarrow>
      construct (APPLICATION_NAME (text_of ''h'') (text_of ''1'') (text_of ''python''))
          (PyStr (text_of ''db'')) (PyStr (text_of ''u'')) None (Some ''utf-8'') PyNone ?kwargs
        = Inr (be_bytes 4
                 (46 + int (length (bytes_of ''h_1_python''))
                  + int (length (concat (map (\<lambda>(kb, vb). kb @ [0] @ vb @ [0]) ?pairs))))
               @ [0, 3, 0, 0]
               @ bytes_of ''user'' @ [0] @ bytes_of ''u'' @ [0]
               @ bytes_of ''database'' @ [0] @ bytes_of ''db'' @ [0]
               @ bytes_of ''application_name'' @ [0] @ bytes_of ''h_1_python'' @ [0]
               @ concat (map (\<lambda>(kb, vb). kb @ [0] @ vb @ [0]) ?pairs) @ [0]))
     \<and> (text_of ''x'' \<noteq> [] \<and> utf8_encode (text_of ''x'') = Inr [0x78]
        \<and> int (length [0x78 :: byte])
            + int (length (concat (map (\<lambda>(kb, vb). kb @ [0] @ vb @ [0]) ?pairs)))
            < 2 ^ 31 - 46 \<longrightarrow>
      construct (text_of ''ignored'')
          (PyStr (text_of ''db'')) (PyStr (text_of ''u'')) None (Some ''utf-8'')
          (PyStr (text_of ''x'')) ?kwargs
        = Inr (be_bytes 4
                 (46 + int (length [0x78 :: byte])
                  + int (length (concat (map (\<lambda>(kb, vb). kb @ [0] @ vb @ [0]) ?pairs))))
               @ [0, 3, 0, 0]
               @ bytes_of ''user'' @ [0] @ bytes_of ''u'' @ [0]
               @ bytes_of ''database'' @ [0] @ bytes_of ''db'' @ [0]
               @ bytes_of ''application_name'' @ [0] @ [0x78] @ [0]
               @ concat (map (\<lambda>(kb, vb). kb @ [0] @ vb @ [0]) ?pairs) @ [0]))
     \<and> (int (length (concat (map (\<lambda>(kb, vb). kb @ [0] @ vb @ [0]) ?pairs)))
          < 2 ^ 31 - 28 \<longrightarrow>
      construct' (PyStr (text_of ''db'')) (PyStr (text_of ''u'')) None (Some ''utf-8'') PyNone
          ?kwargs
        = Inr (be_bytes 4
                 (28 + int (length (concat (map (\<lambda>(kb, vb). kb @ [0] @ vb @ [0]) ?pairs))))
               @ [0, 3, 0, 0]
               @ bytes_of ''user'' @ [0] @ bytes_of ''u'' @ [0]
               @ bytes_of ''database'' @ [0] @ bytes_of ''db'' @ [0]
               @ concat (map (\<lambda>(kb, vb). kb @ [0] @ vb @ [0]) ?pairs) @ [0]))"
    by blast
  from g n l2 have c3:
    "construct (APPLICATION_NAME (text_of ''h'') (text_of ''1'') (text_of ''python''))
          (PyStr (text_of ''db'')) (PyStr (text_of ''u'')) None (Some ''utf-8'') PyNone ?kwargs
        = Inr (be_bytes 4
                 (46 + int (length (bytes_of ''h_1_python''))
                  + int (length (concat (map (\<lambda>(kb, vb). kb @ [0] @ vb @ [0]) ?pairs))))
               @ [0, 3, 0, 0]
               @ bytes_of ''user'' @ [0] @ bytes_of ''u'' @ [0]
               @ bytes_of ''database'' @ [0] @ bytes_of ''db'' @ [0]
               @ bytes_of ''application_name'' @ [0] @ bytes_of ''h_1_python'' @ [0]
               @ concat (map (\<lambda>(kb, vb). kb @ [0] @ vb @ [0]) ?pairs) @ [0])"
    by blast
  from g x k(4) l3 have c4:
    "construct (text_of ''ignored'')
          (PyStr (text_of ''db'')) (PyStr (text_of ''u'')) None (Some ''utf-8'')
          (PyStr (text_of ''x'')) ?kwargs
        = Inr (be_bytes 4
                 (46 + int (length [0x78 :: byte])
                  + int (length (concat (map (\<lambda>(kb, vb). kb @ [0] @ vb @ [0]) ?pairs))))
               @ [0, 3, 0, 0]
               @ bytes_of ''user'' @ [0] @ bytes_of ''u'' @ [0]
               @ bytes_of ''database'' @ [0] @ bytes_of ''db'' @ [0]
               @ bytes_of ''application_name'' @ [0] @ [0x78] @ [0]
               @ concat (map (\<lambda>(kb, vb). kb @ [0] @ vb @ [0]) ?pairs) @ [0])"
    by blast
  from g l4 have c2:
    "construct' (PyStr (text_of ''db'')) (PyStr (text_of ''u'')) None (Some ''utf-8'') PyNone
          ?kwargs
        = Inr (be_bytes 4
                 (28 + int (length (concat (map (\<lambda>(kb, vb). kb @ [0] @ vb @ [0]) ?pairs))))
               @ [0, 3, 0, 0]
               @ bytes_of ''user'' @ [0] @ bytes_of ''u'' @ [0]
               @ bytes_of ''database'' @ [0] @ bytes_of ''db'' @ [0]
               @ concat (map (\<lambda>(kb, vb). kb @ [0] @ vb @ [0]) ?pairs) @ [0])"
    by blast
  show ?thesis
    unfolding c1 c2 c3 c4 e b by simp
qed


end
